theory Spec2Isabelle
  imports Main "HOL-Library.Word"
begin

unbundle bit_operations_syntax

section \<open>JavaScript values the server handles\<close>

text \<open>
  A JavaScript string is held as the list of its code units; the model covers the strings
  whose code units are below 256. For a request header this is every string there is:
  Node decodes header bytes as Latin-1, one code unit for each byte. A value that may be
  \<^verbatim>\<open>undefined\<close> or \<^verbatim>\<open>null\<close> (an unset environment variable, a header that was not
  sent, a missing property) is an \<open>option\<close>.
\<close>

definition truthy :: "string option \<Rightarrow> bool" where
  \<comment> \<open>What \<^verbatim>\<open>if (x)\<close> tests when x is a string or undefined: undefined and the empty string are falsy.\<close>
  "truthy x = (case x of None \<Rightarrow> False | Some s \<Rightarrow> s \<noteq> [])"

definition to_string :: "string option \<Rightarrow> string" where
  \<comment> \<open>A string-or-undefined value inside a template literal.\<close>
  "to_string x = (case x of None \<Rightarrow> ''undefined'' | Some s \<Rightarrow> s)"

definition toLowerCase_char :: "char \<Rightarrow> char" where
  \<comment> \<open>A-Z, and the Latin-1 capitals U+00C0..U+00DE without the multiplication sign U+00D7.\<close>
  "toLowerCase_char c =
     (let n = (of_char c :: nat) in
      if (65 \<le> n \<and> n \<le> 90) \<or> (192 \<le> n \<and> n \<le> 222 \<and> n \<noteq> 215)
      then char_of (n + 32) else c)"

definition toLowerCase :: "string \<Rightarrow> string" where
  "toLowerCase s = map toLowerCase_char s"

definition startsWith :: "string \<Rightarrow> string \<Rightarrow> bool" where
  "startsWith s t = (take (length t) s = t)"

fun includes_str :: "string \<Rightarrow> string \<Rightarrow> bool" where
  \<comment> \<open>\<^verbatim>\<open>s.includes(t)\<close>: t occurs in s as a contiguous run.\<close>
  "includes_str [] t = (t = [])"
| "includes_str (c # cs) t = (startsWith (c # cs) t \<or> includes_str cs t)"

fun replace_first :: "string \<Rightarrow> string \<Rightarrow> string \<Rightarrow> string" where
  \<comment> \<open>\<^verbatim>\<open>s.replace(pat, rep)\<close> with a string pattern: the first occurrence only.\<close>
  "replace_first pat rep [] = (if pat = [] then rep else [])"
| "replace_first pat rep (c # cs) =
     (if startsWith (c # cs) pat then rep @ drop (length pat) (c # cs)
      else c # replace_first pat rep cs)"

definition first_line :: "string \<Rightarrow> string" where
  \<comment> \<open>\<^verbatim>\<open>s.split('\n')[0]\<close>\<close>
  "first_line s = takeWhile (\<lambda>c. c \<noteq> CHR 0x0A) s"

definition join :: "string \<Rightarrow> string list \<Rightarrow> string" where
  \<comment> \<open>\<^verbatim>\<open>xs.join(sep)\<close>\<close>
  "join sep xs = (case xs of [] \<Rightarrow> [] | y # ys \<Rightarrow> y @ concat (map (\<lambda>z. sep @ z) ys))"

definition digit_char :: "nat \<Rightarrow> char" where
  "digit_char n = char_of (48 + n)"

fun nat_to_string :: "nat \<Rightarrow> string" where
  \<comment> \<open>The length of an array inside a template literal: an integer below 2^32, in decimal.\<close>
  "nat_to_string n =
     (if n < 10 then [digit_char n] else nat_to_string (n div 10) @ [digit_char (n mod 10)])"

text \<open>
  A number of a payload is a double. The handlers put such numbers into template literals
  and do nothing else with them, so a number is held by the text that the conversion to a
  string gives for it (\<^verbatim>\<open>7\<close>, \<^verbatim>\<open>1.5\<close>, \<^verbatim>\<open>1e+21\<close>): whatever the engine rounds or
  prints with an exponent is in that text already.
\<close>

datatype js_number = Number string

fun number_to_string :: "js_number \<Rightarrow> string" where
  \<comment> \<open>A number inside a template literal.\<close>
  "number_to_string (Number printed) = printed"

section \<open>Errors and effects\<close>

datatype error =
    RangeError string
  | TypeError string
  | AxiosError string "string option"
  | Thrown string

fun message :: "error \<Rightarrow> string" where
  "message (RangeError m) = m"
| "message (TypeError m) = m"
| "message (AxiosError m r) = m"
| "message (Thrown m) = m"

fun response_data :: "error \<Rightarrow> string option" where
  \<comment> \<open>\<^verbatim>\<open>error.response.data\<close>: the body the task API sent with a failure, when it sent one.\<close>
  "response_data (AxiosError m r) = r"
| "response_data e = None"

datatype console_method = LOG | WARN | ERROR

datatype console_arg = Text string | ErrorObject error | Json string

record post_request =
  post_url :: string
  post_name :: string
  post_description :: string
  post_tags :: "string list"
  post_headers :: "(string \<times> string) list"

record world =
  console :: "(console_method \<times> console_arg list) list"
  outbound :: "post_request list"

definition console_log :: "console_arg list \<Rightarrow> world \<Rightarrow> world" where
  "console_log args w = w\<lparr>console := console w @ [(LOG, args)]\<rparr>"

definition console_warn :: "console_arg list \<Rightarrow> world \<Rightarrow> world" where
  "console_warn args w = w\<lparr>console := console w @ [(WARN, args)]\<rparr>"

definition console_error :: "console_arg list \<Rightarrow> world \<Rightarrow> world" where
  "console_error args w = w\<lparr>console := console w @ [(ERROR, args)]\<rparr>"

section \<open>Configuration, requests and responses\<close>

text \<open>The environment variables the modules read when they are loaded.\<close>

record config =
  CLICKUP_API_TOKEN :: "string option"
  CLICKUP_DEV_BACKLOG_LIST_ID :: "string option"
  CLICKUP_CODE_REVIEWS_LIST_ID :: "string option"
  CLICKUP_TODO_LIST_ID :: "string option"
  GITHUB_WEBHOOK_SECRET :: "string option"
  MAKE_WEBHOOK_SECRET :: "string option"

definition CLICKUP_API_URL :: string where
  "CLICKUP_API_URL = ''https://api.clickup.com/api/v2''"

text \<open>
  The objects of a GitHub payload, with the properties the handlers read. The six
  properties the handlers take from the payload itself may be missing (a payload of
  another event has other properties); the objects below them are as GitHub sends them.
\<close>

record gh_repository =
  name :: string
  full_name :: string

record gh_author =
  author_name :: string

record gh_commit =
  commit_id :: string
  commit_message :: string
  commit_author :: gh_author
  added :: "string list"
  modified :: "string list"
  removed :: "string list"
  commit_url :: string

record gh_branch =
  branch_ref :: string

record gh_user =
  login :: string

record gh_pull_request =
  pr_number :: js_number
  pr_title :: string
  pr_user :: gh_user
  pr_body :: "string option"
  pr_base :: gh_branch
  changed_files :: js_number
  additions :: js_number
  deletions :: js_number
  pr_html_url :: string

record gh_label =
  label_name :: string

record gh_issue =
  issue_number :: js_number
  issue_title :: string
  issue_user :: gh_user
  issue_body :: "string option"
  labels :: "gh_label list"
  issue_html_url :: string

record github_payload =
  ref :: "string option"
  commits :: "gh_commit list option"
  repository :: "gh_repository option"
  action :: "string option"
  pull_request :: "gh_pull_request option"
  issue :: "gh_issue option"

record 'b request =
  headers :: "string \<rightharpoonup> string"
  params :: "string \<rightharpoonup> string"
  body :: 'b

record response =
  status_code :: nat
  json :: "(string \<times> string) list"

definition field :: "string \<Rightarrow> string option \<Rightarrow> (string \<times> string) list" where
  \<comment> \<open>A property of a response object: one whose value is undefined is left out of the JSON.\<close>
  "field k v = (case v of None \<Rightarrow> [] | Some s \<Rightarrow> [(k, s)])"

record clickup_task =
  task_id :: string

text \<open>
  What the process gets from outside its own source: the HMAC of Node's \<^verbatim>\<open>crypto\<close>
  module, \<^verbatim>\<open>JSON.stringify\<close> (plain, and with the indent of two the log lines ask for),
  the answer of the task API to a POST (which may depend on the POSTs made before), and
  the clock.
\<close>

record runtime =
  hmac_sha256 :: "string \<Rightarrow> string \<Rightarrow> 256 word"
  JSON_stringify :: "github_payload \<Rightarrow> string"
  JSON_stringify_indent :: "github_payload \<Rightarrow> string"
  axios_post :: "post_request list \<Rightarrow> post_request \<Rightarrow> error + clickup_task"
  toISOString_now :: string

section \<open>middleware/auth.js\<close>

datatype middleware_result = Respond response | Next

definition authenticateWebhook :: "config \<Rightarrow> 'b request \<Rightarrow> middleware_result" where
  "authenticateWebhook cfg req =
     (let authToken = headers req ''x-webhook-token'' in
      if \<not> truthy authToken then
        Respond \<lparr>status_code = 401,
          json = [(''status'', ''error''), (''message'', ''Authentication token missing'')]\<rparr>
      else if authToken \<noteq> MAKE_WEBHOOK_SECRET cfg then
        Respond \<lparr>status_code = 403,
          json = [(''status'', ''error''), (''message'', ''Invalid authentication token'')]\<rparr>
      else Next)"

section \<open>routes/github.js: the signature\<close>

type_synonym buffer = "8 word list"

definition utf8 :: "char \<Rightarrow> buffer" where
  \<comment> \<open>The UTF-8 bytes of a code unit below 256: one byte below 128, two from there on.\<close>
  "utf8 c =
     (let n = (of_char c :: nat) in
      if n < 128 then [of_nat n] else [of_nat (192 + n div 64), of_nat (128 + n mod 64)])"

definition Buffer_from :: "string \<Rightarrow> buffer" where
  \<comment> \<open>\<^verbatim>\<open>Buffer.from(s)\<close>: the string in UTF-8, the default encoding.\<close>
  "Buffer_from s = concat (map utf8 s)"

definition timingSafeEqual :: "buffer \<Rightarrow> buffer \<Rightarrow> error + bool" where
  \<comment> \<open>\<^verbatim>\<open>crypto.timingSafeEqual\<close> throws when the byte lengths differ.\<close>
  "timingSafeEqual a b =
     (if length a \<noteq> length b
      then Inl (RangeError ''Input buffers must have the same byte length'')
      else Inr (a = b))"

definition hex_digit :: "nat \<Rightarrow> char" where
  "hex_digit n = (if n < 10 then char_of (48 + n) else char_of (87 + n))"

definition digest_hex :: "256 word \<Rightarrow> string" where
  \<comment> \<open>\<^verbatim>\<open>.digest('hex')\<close>: the 32 bytes as 64 lower-case hex digits, the first byte first.\<close>
  "digest_hex d = map (\<lambda>i. hex_digit (unat (drop_bit (4 * (63 - i)) d AND 15))) [0..<64]"

definition verifyGithubSignature ::
  "runtime \<Rightarrow> config \<Rightarrow> github_payload request \<Rightarrow> world \<Rightarrow> (error + bool) \<times> world" where
  "verifyGithubSignature rt cfg req w =
     (let skipped = (Inr True, console_warn
            [Text ''GitHub webhook secret not configured - skipping signature verification''] w);
          missing = (Inr False, console_error [Text ''No X-Hub-Signature-256 header in request''] w)
      in case GITHUB_WEBHOOK_SECRET cfg of
        None \<Rightarrow> skipped
      | Some secret \<Rightarrow>
          if secret = [] then skipped
          else (case headers req ''x-hub-signature-256'' of
            None \<Rightarrow> missing
          | Some signature \<Rightarrow>
              if signature = [] then missing
              else
                (let payload = JSON_stringify rt (body req);
                     digest = ''sha256='' @ digest_hex (hmac_sha256 rt secret payload)
                 in (timingSafeEqual (Buffer_from signature) (Buffer_from digest), w))))"

section \<open>handlers/githubHandler.js\<close>

record task =
  task_name :: string
  description :: string
  listId :: "string option"
  tags :: "string list"

definition template :: "string list \<Rightarrow> string" where
  \<comment> \<open>A template literal of several lines, given line by line.\<close>
  "template ls = join [CHR 0x0A] ls"

definition cannot_read :: "string \<Rightarrow> error" where
  \<comment> \<open>Reading a property of undefined, with the message V8 gives.\<close>
  "cannot_read p =
     TypeError (''Cannot read properties of undefined (reading '' @ [CHR 0x27] @ p @ [CHR 0x27] @ '')'')"

definition task_request :: "config \<Rightarrow> task \<Rightarrow> post_request" where
  \<comment> \<open>The arguments of \<^verbatim>\<open>axios.post\<close>: URL, body and headers.\<close>
  "task_request cfg t =
     \<lparr>post_url = CLICKUP_API_URL @ ''/list/'' @ to_string (listId t) @ ''/task'',
      post_name = task_name t,
      post_description = description t,
      post_tags = tags t,
      post_headers = [(''Authorization'', to_string (CLICKUP_API_TOKEN cfg)),
                      (''Content-Type'', ''application/json'')]\<rparr>"

definition createClickUpTask ::
  "runtime \<Rightarrow> config \<Rightarrow> task \<Rightarrow> world \<Rightarrow> (error + clickup_task option) \<times> world" where
  "createClickUpTask rt cfg t w =
     (if \<not> truthy (CLICKUP_API_TOKEN cfg) then
        (Inr None, console_log [Text ''ClickUp integration not configured (missing API token)''] w)
      else if \<not> truthy (listId t) then
        (Inr None, console_log [Text ''ClickUp list ID not configured''] w)
      else
        (let w1 = w\<lparr>outbound := outbound w @ [task_request cfg t]\<rparr>
         in case axios_post rt (outbound w) (task_request cfg t) of
              Inr data \<Rightarrow>
                (Inr (Some data),
                 console_log [Text (''Created ClickUp task: '' @ task_id data @ '' - '' @ task_name t)] w1)
            | Inl err \<Rightarrow>
                (let w2 = console_error [Text ''Error creating ClickUp task:'', Text (message err)] w1
                 in (Inl err,
                     case response_data err of
                       None \<Rightarrow> w2
                     | Some d \<Rightarrow> console_error [Text ''ClickUp API response:'', Json d] w2))))"

definition push_task :: "config \<Rightarrow> gh_repository \<Rightarrow> string \<Rightarrow> gh_commit \<Rightarrow> task" where
  "push_task cfg repo branch c =
     \<lparr>task_name = ''TODO from commit: '' @ first_line (commit_message c),
      description = template
        [[],
         ''# TODO from GitHub Commit'',
         [],
         ''**Repository:** '' @ full_name repo,
         ''**Branch:** '' @ branch,
         ''**Commit:** '' @ commit_id c,
         ''**Author:** '' @ author_name (commit_author c),
         ''**Message:**'',
         ''```'',
         commit_message c,
         ''```'',
         [],
         ''**Changes:**'',
         ''- Added: '' @ nat_to_string (length (added c)) @ '' files'',
         ''- Modified: '' @ nat_to_string (length (modified c)) @ '' files'',
         ''- Removed: '' @ nat_to_string (length (removed c)) @ '' files'',
         [],
         ''**Commit URL:** '' @ commit_url c,
         ''        ''],
      listId = CLICKUP_TODO_LIST_ID cfg,
      tags = [''github'', ''todo'', ''commit'']\<rparr>"

fun push_commits ::
  "runtime \<Rightarrow> config \<Rightarrow> gh_repository \<Rightarrow> string \<Rightarrow> gh_commit list \<Rightarrow> world
     \<Rightarrow> (error + unit) \<times> world" where
  \<comment> \<open>The loop over the commits; a task creation that throws ends it.\<close>
  "push_commits rt cfg repo branch [] w = (Inr (), w)"
| "push_commits rt cfg repo branch (c # cs) w =
     (if includes_str (toLowerCase (commit_message c)) ''todo'' then
        (case createClickUpTask rt cfg (push_task cfg repo branch c) w of
           (Inl err, w1) \<Rightarrow> (Inl err, w1)
         | (Inr created, w1) \<Rightarrow> push_commits rt cfg repo branch cs w1)
      else push_commits rt cfg repo branch cs w)"

definition handlePushEvent ::
  "runtime \<Rightarrow> config \<Rightarrow> github_payload \<Rightarrow> world \<Rightarrow> (error + unit) \<times> world" where
  "handlePushEvent rt cfg data w =
     (case ref data of
        None \<Rightarrow> (Inl (cannot_read ''replace''), w)
      | Some r \<Rightarrow>
          (let branch = replace_first ''refs/heads/'' [] r in
           case repository data of
             None \<Rightarrow> (Inl (cannot_read ''full_name''), w)
           | Some repo \<Rightarrow>
               (case commits data of
                  None \<Rightarrow> (Inl (cannot_read ''length''), w)
                | Some cs \<Rightarrow>
                    push_commits rt cfg repo branch cs
                      (console_log [Text (''Push to '' @ full_name repo @ '' on branch '' @ branch
                         @ '' with '' @ nat_to_string (length cs) @ '' commits'')] w))))"

definition pull_request_task :: "config \<Rightarrow> gh_repository \<Rightarrow> gh_pull_request \<Rightarrow> task" where
  "pull_request_task cfg repo pr =
     \<lparr>task_name = ''Review PR #'' @ number_to_string (pr_number pr) @ '': '' @ pr_title pr,
      description = template
        [[],
         ''# Pull Request Review'',
         [],
         ''**Repository:** '' @ full_name repo,
         ''**PR Number:** #'' @ number_to_string (pr_number pr),
         ''**Title:** '' @ pr_title pr,
         ''**Author:** '' @ login (pr_user pr),
         [],
         ''**Description:**'',
         (if truthy (pr_body pr) then to_string (pr_body pr) else ''No description provided''),
         [],
         ''**Changes:**'',
         ''- '' @ number_to_string (changed_files pr) @ '' files changed'',
         ''- '' @ number_to_string (additions pr) @ '' additions'',
         ''- '' @ number_to_string (deletions pr) @ '' deletions'',
         [],
         ''**PR URL:** '' @ pr_html_url pr,
         ''    ''],
      listId = CLICKUP_CODE_REVIEWS_LIST_ID cfg,
      tags = [''github'', ''pull-request'', name repo]\<rparr>"

definition discard :: "(error + 'a) \<times> world \<Rightarrow> (error + unit) \<times> world" where
  \<comment> \<open>An awaited call whose value is not used.\<close>
  "discard r = (case r of (Inl err, w) \<Rightarrow> (Inl err, w) | (Inr v, w) \<Rightarrow> (Inr (), w))"

definition handlePullRequestEvent ::
  "runtime \<Rightarrow> config \<Rightarrow> github_payload \<Rightarrow> world \<Rightarrow> (error + unit) \<times> world" where
  "handlePullRequestEvent rt cfg data w =
     (if action data \<noteq> Some ''opened'' \<and> action data \<noteq> Some ''reopened'' then (Inr (), w)
      else case pull_request data of
        None \<Rightarrow> (Inl (cannot_read ''base''), w)
      | Some pr \<Rightarrow>
          if branch_ref (pr_base pr) \<noteq> ''main'' \<and> branch_ref (pr_base pr) \<noteq> ''master'' then
            (Inr (), console_log [Text (''Skipping PR to '' @ branch_ref (pr_base pr)
               @ '' branch (only tracking main/master)'')] w)
          else (case repository data of
            None \<Rightarrow> (Inl (cannot_read ''full_name''), w)
          | Some repo \<Rightarrow>
              discard (createClickUpTask rt cfg (pull_request_task cfg repo pr)
                (console_log [Text (''New PR #'' @ number_to_string (pr_number pr) @ '' in ''
                   @ full_name repo @ '': '' @ pr_title pr)] w))))"

definition issue_task :: "config \<Rightarrow> gh_repository \<Rightarrow> gh_issue \<Rightarrow> task" where
  "issue_task cfg repo i =
     \<lparr>task_name = ''GitHub Issue #'' @ number_to_string (issue_number i) @ '': '' @ issue_title i,
      description = template
        [[],
         ''# GitHub Issue'',
         [],
         ''**Repository:** '' @ full_name repo,
         ''**Issue Number:** #'' @ number_to_string (issue_number i),
         ''**Title:** '' @ issue_title i,
         ''**Author:** '' @ login (issue_user i),
         [],
         ''**Description:**'',
         (if truthy (issue_body i) then to_string (issue_body i) else ''No description provided''),
         [],
         ''**Labels:** '' @ join '', '' (map label_name (labels i)),
         [],
         ''**Issue URL:** '' @ issue_html_url i,
         ''    ''],
      listId = CLICKUP_DEV_BACKLOG_LIST_ID cfg,
      tags = [''github'', ''issue'', name repo]\<rparr>"

definition hasStackLabel :: "gh_issue \<Rightarrow> bool" where
  "hasStackLabel i =
     list_ex (\<lambda>label. toLowerCase (label_name label) = ''stack''
                     \<or> toLowerCase (label_name label) = ''immortal-stack'') (labels i)"

definition handleIssuesEvent ::
  "runtime \<Rightarrow> config \<Rightarrow> github_payload \<Rightarrow> world \<Rightarrow> (error + unit) \<times> world" where
  "handleIssuesEvent rt cfg data w =
     (if action data \<noteq> Some ''opened'' \<and> action data \<noteq> Some ''reopened'' then (Inr (), w)
      else case issue data of
        None \<Rightarrow> (Inl (cannot_read ''labels''), w)
      | Some i \<Rightarrow>
          if \<not> hasStackLabel i then
            (Inr (), console_log [Text (''Skipping issue #'' @ number_to_string (issue_number i)
               @ '' - no stack label'')] w)
          else (case repository data of
            None \<Rightarrow> (Inl (cannot_read ''full_name''), w)
          | Some repo \<Rightarrow>
              discard (createClickUpTask rt cfg (issue_task cfg repo i)
                (console_log [Text (''New issue #'' @ number_to_string (issue_number i) @ '' in ''
                   @ full_name repo @ '': '' @ issue_title i)] w))))"

definition logEventToMongoDB :: "github_payload \<Rightarrow> string option \<Rightarrow> world \<Rightarrow> world" where
  "logEventToMongoDB data eventType w =
     console_log [Text (''[MongoDB] Logging GitHub '' @ to_string eventType @ '' event to database'')] w"

definition dispatch ::
  "runtime \<Rightarrow> config \<Rightarrow> github_payload \<Rightarrow> string option \<Rightarrow> world \<Rightarrow> (error + unit) \<times> world" where
  \<comment> \<open>The body of the \<^verbatim>\<open>try\<close> of processGithubEvent, up to the return: the switch and the logging step.\<close>
  "dispatch rt cfg data eventType w =
     (case (if eventType = Some ''push'' then handlePushEvent rt cfg data w
            else if eventType = Some ''pull_request'' then handlePullRequestEvent rt cfg data w
            else if eventType = Some ''issues'' then handleIssuesEvent rt cfg data w
            else (Inr (), console_log [Text (''Event type '' @ to_string eventType
                    @ '' not configured for processing'')] w)) of
        (Inl err, w1) \<Rightarrow> (Inl err, w1)
      | (Inr u, w1) \<Rightarrow> (Inr (), logEventToMongoDB data eventType w1))"

record result =
  result_status :: string
  result_message :: string

definition processing :: "runtime \<Rightarrow> github_payload \<Rightarrow> string option \<Rightarrow> world \<Rightarrow> world" where
  \<comment> \<open>The line processGithubEvent writes before its \<^verbatim>\<open>try\<close>.\<close>
  "processing rt data eventType w =
     console_log [Text (''Processing GitHub '' @ to_string eventType @ '' event:''),
                  Json (JSON_stringify_indent rt data)] w"

definition processGithubEvent ::
  "runtime \<Rightarrow> config \<Rightarrow> github_payload \<Rightarrow> string option \<Rightarrow> world \<Rightarrow> (error + result) \<times> world" where
  "processGithubEvent rt cfg data eventType w =
     (case dispatch rt cfg data eventType (processing rt data eventType w) of
        (Inr u, w1) \<Rightarrow>
          (Inr \<lparr>result_status = ''success'',
                result_message = ''GitHub '' @ to_string eventType @ '' event processed successfully''\<rparr>,
           w1)
      | (Inl err, w1) \<Rightarrow>
          (Inr \<lparr>result_status = ''error'',
                result_message = ''Error processing GitHub event: '' @ message err\<rparr>,
           console_error [Text ''Error processing GitHub event:'', ErrorObject err] w1))"

section \<open>routes/github.js: the webhook route\<close>

text \<open>
  The route calls the \<^verbatim>\<open>processGithubEvent\<close> it imports; here it is an argument, so
  that the \<^verbatim>\<open>try\<close>/\<^verbatim>\<open>catch\<close> of the route is stated for whatever the call does. \<open>Inl\<close>
  is an exception that leaves the route handler.
\<close>

definition arrival :: "'b request \<Rightarrow> world \<Rightarrow> world" where
  \<comment> \<open>The line the route writes when a request comes in.\<close>
  "arrival req w =
     console_log [Text (''Received GitHub '' @ to_string (headers req ''x-github-event'')
        @ '' event ('' @ to_string (headers req ''x-github-delivery'') @ '')'')] w"

definition github_route ::
  "(github_payload \<Rightarrow> string option \<Rightarrow> world \<Rightarrow> (error + result) \<times> world)
     \<Rightarrow> runtime \<Rightarrow> config \<Rightarrow> github_payload request \<Rightarrow> world \<Rightarrow> (error + response) \<times> world" where
  "github_route process rt cfg req w =
     (let eventType = headers req ''x-github-event'';
          deliveryId = headers req ''x-github-delivery''
      in case verifyGithubSignature rt cfg req (arrival req w) of
           (Inl err, w1) \<Rightarrow> (Inl err, w1)
         | (Inr valid, w1) \<Rightarrow>
             if \<not> valid then
               (Inr \<lparr>status_code = 401,
                     json = [(''status'', ''error''), (''message'', ''Invalid signature'')]\<rparr>,
                console_error [Text ''Invalid GitHub webhook signature''] w1)
             else (case process (body req) eventType w1 of
               (Inr r, w2) \<Rightarrow>
                 (Inr \<lparr>status_code = 200,
                       json = [(''status'', result_status r), (''message'', result_message r)]
                              @ field ''eventType'' eventType @ field ''deliveryId'' deliveryId
                              @ [(''timestamp'', toISOString_now rt)]\<rparr>,
                  w2)
             | (Inl err, w2) \<Rightarrow>
                 (Inr \<lparr>status_code = 200,
                       json = [(''status'', ''error''),
                               (''message'', ''Webhook received but processing failed''),
                               (''error'', message err)]\<rparr>,
                  console_error [Text ''Error processing GitHub webhook:'', ErrorObject err] w2)))"

definition github_webhook ::
  "runtime \<Rightarrow> config \<Rightarrow> github_payload request \<Rightarrow> world \<Rightarrow> (error + response) \<times> world" where
  "github_webhook rt cfg req w = github_route (processGithubEvent rt cfg) rt cfg req w"

section \<open>routes/webhooks.js\<close>

text \<open>
  The four handler modules are not part of the sources at hand: each is an argument, a call
  that returns or throws and may write to the console. So are the indented
  \<^verbatim>\<open>JSON.stringify\<close> of the payload and the clock.
\<close>

record 'p make_runtime =
  processMemory :: "'p \<Rightarrow> world \<Rightarrow> error option \<times> world"
  processLog :: "'p \<Rightarrow> world \<Rightarrow> error option \<times> world"
  processSync :: "'p \<Rightarrow> world \<Rightarrow> error option \<times> world"
  processUpdate :: "'p \<Rightarrow> world \<Rightarrow> error option \<times> world"
  stringify_indent :: "'p \<Rightarrow> string"
  make_now :: string

definition scenario ::
  "'p make_runtime \<Rightarrow> string option \<Rightarrow> 'p \<Rightarrow> world \<Rightarrow> error option \<times> world" where
  \<comment> \<open>The switch on the scenario ID.\<close>
  "scenario mrt scenarioId payload w =
     (if scenarioId = Some ''memory-harvest'' then processMemory mrt payload w
      else if scenarioId = Some ''discord-log'' then processLog mrt payload w
      else if scenarioId = Some ''clickup-sync'' then processSync mrt payload w
      else if scenarioId = Some ''notion-update'' then processUpdate mrt payload w
      else (None, console_warn [Text (''Unknown scenario ID: '' @ to_string scenarioId)] w))"

definition make_arrival :: "'p make_runtime \<Rightarrow> 'p request \<Rightarrow> world \<Rightarrow> world" where
  \<comment> \<open>The two lines the route writes before the \<^verbatim>\<open>try\<close>.\<close>
  "make_arrival mrt req w =
     console_log [Text ''Payload:'', Json (stringify_indent mrt (body req))]
       (console_log [Text (''Received webhook from MAKE.com scenario: ''
          @ to_string (params req ''scenarioId''))] w)"

definition make_route :: "'p make_runtime \<Rightarrow> 'p request \<Rightarrow> world \<Rightarrow> response \<times> world" where
  "make_route mrt req w =
     (let scenarioId = params req ''scenarioId'';
          payload = body req
      in case scenario mrt scenarioId payload (make_arrival mrt req w) of
           (None, w2) \<Rightarrow>
             (\<lparr>status_code = 200,
               json = [(''status'', ''success''), (''message'', ''Webhook received successfully'')]
                      @ field ''scenarioId'' scenarioId @ [(''timestamp'', make_now mrt)]\<rparr>,
              w2)
         | (Some err, w2) \<Rightarrow>
             (\<lparr>status_code = 200,
               json = [(''status'', ''error''),
                       (''message'', ''Webhook received but processing failed'')]\<rparr>,
              console_error [Text ''Error processing webhook:'', ErrorObject err] w2))"

definition make_webhook ::
  "'p make_runtime \<Rightarrow> config \<Rightarrow> 'p request \<Rightarrow> world \<Rightarrow> response \<times> world" where
  \<comment> \<open>\<^verbatim>\<open>router.post('/make/:scenarioId', authenticateWebhook, ...)\<close>: the middleware, then the route.\<close>
  "make_webhook mrt cfg req w =
     (case authenticateWebhook cfg req of
        Respond r \<Rightarrow> (r, w)
      | Next \<Rightarrow> make_route mrt req w)"

section \<open>server.js\<close>


definition post_api_github_webhook ::
  "(error \<Rightarrow> world \<Rightarrow> response option \<times> world)
     \<Rightarrow> runtime \<Rightarrow> config \<Rightarrow> github_payload request \<Rightarrow> world \<Rightarrow> response option \<times> world" where
  \<comment> \<open>The route as the application mounts it. The route handler is an async function: an
      error that leaves it is the rejection of its promise, and what becomes of a rejection
      is decided by the framework, which is not part of these sources. It is the argument
      \<open>rejected\<close>; \<open>None\<close> is a request that gets no answer.\<close>
  "post_api_github_webhook rejected rt cfg req w =
     (case github_webhook rt cfg req w of
        (Inl err, w1) \<Rightarrow> rejected err w1
      | (Inr r, w1) \<Rightarrow> (Some r, w1))"

section \<open>Case-insensitive matching, in the words of the specification\<close>

text \<open>
  The specification speaks of a message that contains a word case-insensitively and of a
  label that equals a word case-insensitively. These two definitions say that without the
  handlers' code; the theorems about the handlers are stated with them.
\<close>

definition same_ignoring_case :: "string \<Rightarrow> string \<Rightarrow> bool" where
  "same_ignoring_case a b = (toLowerCase a = toLowerCase b)"

definition contains_ignoring_case :: "string \<Rightarrow> string \<Rightarrow> bool" where
  \<comment> \<open>Some run of s, as long as t, is t up to case.\<close>
  "contains_ignoring_case s t =
     list_ex (\<lambda>i. same_ignoring_case (take (length t) (drop i s)) t) [0..<Suc (length s)]"

section \<open>Sample inputs\<close>

text \<open>
  Concrete values for the closed instances further down. The HMAC here is a stand-in with the
  type of the real one; the theorems are stated for every runtime.
\<close>

definition sample_runtime :: runtime where
  "sample_runtime =
     \<lparr>hmac_sha256 = (\<lambda>key payload. of_nat (length key + 31 * length payload)),
      JSON_stringify = (\<lambda>data. ''{}''),
      JSON_stringify_indent = (\<lambda>data. ''{}''),
      axios_post = (\<lambda>earlier post. Inr \<lparr>task_id = ''86c0''\<rparr>),
      toISOString_now = ''2024-05-01T12:00:00.000Z''\<rparr>"

definition sample_config :: config where
  "sample_config =
     \<lparr>CLICKUP_API_TOKEN = Some ''pk_token'',
      CLICKUP_DEV_BACKLOG_LIST_ID = Some ''901'',
      CLICKUP_CODE_REVIEWS_LIST_ID = Some ''902'',
      CLICKUP_TODO_LIST_ID = Some ''903'',
      GITHUB_WEBHOOK_SECRET = Some ''hook-secret'',
      MAKE_WEBHOOK_SECRET = Some ''make-secret''\<rparr>"

definition empty_payload :: github_payload where
  "empty_payload =
     \<lparr>ref = None, commits = None, repository = None, action = None,
      pull_request = None, issue = None\<rparr>"

definition quiet :: world where
  "quiet = \<lparr>console = [], outbound = []\<rparr>"

definition failing_runtime :: runtime where
  \<comment> \<open>A task API that turns every request down, with an error body.\<close>
  "failing_runtime =
     sample_runtime\<lparr>axios_post := (\<lambda>earlier post.
        Inl (AxiosError ''Request failed with status code 401'' (Some ''OAUTH_025'')))\<rparr>"

definition token_request :: "string option \<Rightarrow> unit request" where
  \<comment> \<open>A request to the automation-platform endpoint with the given token header (or none).\<close>
  "token_request token =
     \<lparr>headers = (\<lambda>h. if h = ''x-webhook-token'' then token else None),
      params = [''scenarioId'' \<mapsto> ''memory-harvest''],
      body = ()\<rparr>"

definition sample_make_runtime :: "unit make_runtime" where
  \<comment> \<open>Handlers of which the first throws.\<close>
  "sample_make_runtime =
     \<lparr>processMemory = (\<lambda>payload w. (Some (Thrown ''memory store unreachable''), w)),
      processLog = (\<lambda>payload w. (None, w)),
      processSync = (\<lambda>payload w. (None, w)),
      processUpdate = (\<lambda>payload w. (None, w)),
      stringify_indent = (\<lambda>payload. ''{}''),
      make_now = ''2024-05-01T12:00:00.000Z''\<rparr>"

definition sample_task :: task where
  "sample_task =
     \<lparr>task_name = ''Review PR #7: Fix login'',
      description = ''# Pull Request Review'',
      listId = Some ''902'',
      tags = [''github'', ''pull-request'', ''stack'']\<rparr>"

definition sample_repository :: gh_repository where
  "sample_repository = \<lparr>name = ''stack'', full_name = ''celestial/stack''\<rparr>"

definition sample_commit :: "string \<Rightarrow> gh_commit" where
  "sample_commit msg =
     \<lparr>commit_id = ''4f2a9c1'',
      commit_message = msg,
      commit_author = \<lparr>author_name = ''Ada''\<rparr>,
      added = [''a.js''], modified = [], removed = [],
      commit_url = ''https://github.com/celestial/stack/commit/4f2a9c1''\<rparr>"

definition sample_push :: github_payload where
  \<comment> \<open>Three commits, two of them with the word in their message.\<close>
  "sample_push =
     empty_payload\<lparr>ref := Some ''refs/heads/main'',
       repository := Some sample_repository,
       commits := Some [sample_commit ''todo: fix bug'', sample_commit ''Bump version'',
                        sample_commit ''Parser (ToDo later)'']\<rparr>"

definition sample_pull_request :: "string \<Rightarrow> gh_pull_request" where
  "sample_pull_request base =
     \<lparr>pr_number = Number ''7'', pr_title = ''Fix login'', pr_user = \<lparr>login = ''ada''\<rparr>, pr_body = None,
      pr_base = \<lparr>branch_ref = base\<rparr>, changed_files = Number ''2'',
      additions = Number ''10'', deletions = Number ''3'',
      pr_html_url = ''https://github.com/celestial/stack/pull/7''\<rparr>"

definition sample_pr_event :: "string \<Rightarrow> string \<Rightarrow> github_payload" where
  "sample_pr_event act base =
     empty_payload\<lparr>action := Some act, repository := Some sample_repository,
       pull_request := Some (sample_pull_request base)\<rparr>"

definition sample_issue :: "string list \<Rightarrow> gh_issue" where
  "sample_issue ls =
     \<lparr>issue_number = Number ''12'', issue_title = ''Crash on start'', issue_user = \<lparr>login = ''ada''\<rparr>,
      issue_body = Some ''It crashes.'', labels = map (\<lambda>l. \<lparr>label_name = l\<rparr>) ls,
      issue_html_url = ''https://github.com/celestial/stack/issues/12''\<rparr>"

definition sample_issue_event :: "string list \<Rightarrow> github_payload" where
  "sample_issue_event ls =
     empty_payload\<lparr>action := Some ''opened'', repository := Some sample_repository,
       issue := Some (sample_issue ls)\<rparr>"

definition signed_request :: "runtime \<Rightarrow> string \<Rightarrow> github_payload \<Rightarrow> github_payload request" where
  \<comment> \<open>A push delivery that carries the signature the secret gives for its body.\<close>
  "signed_request rt secret data =
     \<lparr>headers = [''x-github-event'' \<mapsto> ''push'', ''x-github-delivery'' \<mapsto> ''72d3162e'',
                 ''x-hub-signature-256'' \<mapsto>
                   ''sha256='' @ digest_hex (hmac_sha256 rt secret (JSON_stringify rt data))],
      params = Map.empty,
      body = data\<rparr>"

definition throwing_process ::
  "github_payload \<Rightarrow> string option \<Rightarrow> world \<Rightarrow> (error + result) \<times> world" where
  "throwing_process data eventType w = (Inl (Thrown ''out of memory''), w)"



definition unanswered :: "error \<Rightarrow> world \<Rightarrow> response option \<times> world" where
  \<comment> \<open>A framework that leaves the rejection alone, as Express 4 does: the request gets no answer.\<close>
  "unanswered err w = (None, w)"

section \<open>The signature check\<close>

subsection \<open>Bytes of the two buffers\<close>

lemma verify_value_any_world:
  "fst (verifyGithubSignature rt cfg req w) = fst (verifyGithubSignature rt cfg req w')"
  by (simp add: verifyGithubSignature_def Let_def split: option.splits)

lemma hex_digit_ascii: "n < 16 \<Longrightarrow> (of_char (hex_digit n) :: nat) < 128"
  by (simp add: hex_digit_def)

lemma length_digest_hex: "length (digest_hex d) = 64"
  by (simp add: digest_hex_def)

lemma nibble_less: "unat (w AND (15 :: 256 word)) < 16"
proof -
  have "w AND 15 \<le> 15" by (rule word_and_le1)
  then have "unat (w AND 15) \<le> unat (15 :: 256 word)" by (simp add: word_le_nat_alt)
  then show ?thesis by simp
qed

lemma digest_hex_ascii: "c \<in> set (digest_hex d) \<Longrightarrow> (of_char c :: nat) < 128"
  by (auto simp: digest_hex_def intro!: hex_digit_ascii nibble_less)

lemma length_utf8: "length (utf8 c) = (if (of_char c :: nat) < 128 then 1 else 2)"
  by (simp add: utf8_def Let_def)

lemma length_Buffer_from:
  "length (Buffer_from s) = length s + length (filter (\<lambda>c. \<not> (of_char c :: nat) < 128) s)"
  by (induction s) (simp_all add: Buffer_from_def length_utf8)

lemma length_Buffer_from_ascii:
  "\<forall>c\<in>set s. (of_char c :: nat) < 128 \<Longrightarrow> length (Buffer_from s) = length s"
  by (simp add: length_Buffer_from)

lemma length_digest_buffer:
  "length (Buffer_from (''sha256='' @ digest_hex d)) = 71"
proof -
  have "\<forall>c\<in>set (''sha256='' @ digest_hex d). (of_char c :: nat) < 128"
    by (auto dest: digest_hex_ascii)
  then have "length (Buffer_from (''sha256='' @ digest_hex d)) = length (''sha256='' @ digest_hex d)"
    by (rule length_Buffer_from_ascii)
  then show ?thesis by (simp add: length_digest_hex)
qed

lemma verify_compare:
  assumes "GITHUB_WEBHOOK_SECRET cfg = Some secret" "secret \<noteq> []"
    and "headers req ''x-hub-signature-256'' = Some signature" "signature \<noteq> []"
  shows "verifyGithubSignature rt cfg req w =
    (timingSafeEqual (Buffer_from signature)
       (Buffer_from (''sha256='' @ digest_hex (hmac_sha256 rt secret (JSON_stringify rt (body req))))), w)"
  using assms by (simp add: verifyGithubSignature_def Let_def)

lemma byte_of_nat_eq: "m < 256 \<Longrightarrow> n < 256 \<Longrightarrow> (of_nat m :: 8 word) = of_nat n \<longleftrightarrow> m = n"
  by (simp add: word_of_nat_eq_iff take_bit_eq_mod)

lemma utf8_one: "(of_char c :: nat) < 128 \<Longrightarrow> utf8 c = [of_nat (of_char c)]"
  by (simp add: utf8_def)

lemma utf8_two:
  "\<not> (of_char c :: nat) < 128 \<Longrightarrow>
     utf8 c = [of_nat (192 + of_char c div 64), of_nat (128 + of_char c mod 64)]"
  unfolding utf8_def Let_def by (simp only: if_False)

lemma lead_byte_less: "k < 256 \<Longrightarrow> 192 + k div 64 < (256::nat)"
  by arith

lemma utf8_inj:
  assumes "utf8 c @ xs = utf8 d @ ys"
  shows "c = d \<and> xs = ys"
proof -
  let ?m = "of_char c :: nat" and ?n = "of_char d :: nat"
  have m: "?m < 256" and n: "?n < 256" by simp_all
  have "?m = ?n \<and> xs = ys"
  proof (cases "?m < 128"; cases "?n < 128")
    assume a: "?m < 128" "?n < 128"
    from assms have "(of_nat ?m :: 8 word) = of_nat ?n" "xs = ys"
      unfolding utf8_one [OF a(1)] utf8_one [OF a(2)] by simp_all
    with m n show ?thesis by (simp only: byte_of_nat_eq)
  next
    assume a: "?m < 128" "\<not> ?n < 128"
    from assms have "(of_nat ?m :: 8 word) = of_nat (192 + ?n div 64)"
      unfolding utf8_one [OF a(1)] utf8_two [OF a(2)] by (simp only: append_Cons list.inject)
    moreover have "192 + ?n div 64 < 256" using n by (rule lead_byte_less)
    ultimately have "?m = 192 + ?n div 64" using m by (simp only: byte_of_nat_eq)
    with a show ?thesis by simp
  next
    assume a: "\<not> ?m < 128" "?n < 128"
    from assms have "(of_nat (192 + ?m div 64) :: 8 word) = of_nat ?n"
      unfolding utf8_two [OF a(1)] utf8_one [OF a(2)] by (simp only: append_Cons list.inject)
    moreover have "192 + ?m div 64 < 256" using m by (rule lead_byte_less)
    ultimately have "192 + ?m div 64 = ?n" using n by (simp only: byte_of_nat_eq)
    with a show ?thesis by simp
  next
    assume a: "\<not> ?m < 128" "\<not> ?n < 128"
    from assms have e: "(of_nat (192 + ?m div 64) :: 8 word) = of_nat (192 + ?n div 64)"
      "(of_nat (128 + ?m mod 64) :: 8 word) = of_nat (128 + ?n mod 64)" "xs = ys"
      unfolding utf8_two [OF a(1)] utf8_two [OF a(2)]
      by (simp_all only: append_Cons append_Nil list.inject)
    have "192 + ?m div 64 < 256" "192 + ?n div 64 < 256" "128 + ?m mod 64 < 256" "128 + ?n mod 64 < 256"
      using m n by (simp_all add: lead_byte_less)
    with e have "192 + ?m div 64 = 192 + ?n div 64" "128 + ?m mod 64 = 128 + ?n mod 64"
      by (simp_all only: byte_of_nat_eq)
    then have "?m div 64 = ?n div 64" "?m mod 64 = ?n mod 64" by simp_all
    then have "?m = ?n" by (metis div_mult_mod_eq)
    with e show ?thesis by simp
  qed
  then show ?thesis by simp
qed

lemma utf8_not_Nil: "utf8 c \<noteq> []"
  by (simp add: utf8_def Let_def)

lemma Buffer_from_inj: "Buffer_from s = Buffer_from t \<Longrightarrow> s = t"
proof (induction s arbitrary: t)
  case Nil
  then show ?case by (cases t) (simp_all add: Buffer_from_def utf8_not_Nil)
next
  case (Cons c s)
  show ?case
  proof (cases t)
    case Nil
    with Cons.prems show ?thesis by (simp add: Buffer_from_def utf8_not_Nil)
  next
    case (Cons d t')
    with Cons.prems have "utf8 c @ Buffer_from s = utf8 d @ Buffer_from t'"
      by (simp add: Buffer_from_def)
    then have "c = d" "Buffer_from s = Buffer_from t'" by (auto dest: utf8_inj)
    with Cons.IH Cons show ?thesis by simp
  qed
qed

lemma timingSafeEqual_lengths:
  "length a \<noteq> length b \<Longrightarrow>
     timingSafeEqual a b = Inl (RangeError ''Input buffers must have the same byte length'')"
  by (simp add: timingSafeEqual_def)

lemma verify_length_mismatch:
  assumes "GITHUB_WEBHOOK_SECRET cfg = Some secret" "secret \<noteq> []"
    and "headers req ''x-hub-signature-256'' = Some signature" "signature \<noteq> []"
    and "length (Buffer_from signature) \<noteq> 71"
  shows "verifyGithubSignature rt cfg req w =
           (Inl (RangeError ''Input buffers must have the same byte length''), w)"
proof -
  let ?digest = "''sha256='' @ digest_hex (hmac_sha256 rt secret (JSON_stringify rt (body req)))"
  have "length (Buffer_from signature) \<noteq> length (Buffer_from ?digest)"
    using assms(5) by (simp only: length_digest_buffer not_False_eq_True)
  then have "timingSafeEqual (Buffer_from signature) (Buffer_from ?digest) =
      Inl (RangeError ''Input buffers must have the same byte length'')"
    by (rule timingSafeEqual_lengths)
  with verify_compare [OF assms(1-4), of rt w] show ?thesis by (simp only:)
qed

lemma mutated_buffer_longer:
  assumes "i < length g" "\<not> (of_char c :: nat) < 128"
  shows "length g < length (Buffer_from (g[i := c]))"
proof -
  from assms(1) have "c \<in> set (g[i := c])" by (rule set_update_memI)
  with assms(2) have "filter (\<lambda>c. \<not> (of_char c :: nat) < 128) (g[i := c]) \<noteq> []"
    by (auto simp: filter_empty_conv)
  then have "0 < length (filter (\<lambda>c. \<not> (of_char c :: nat) < 128) (g[i := c]))"
    by simp
  then show ?thesis by (simp add: length_Buffer_from)
qed

lemma length_expected_signature: "length (''sha256='' @ digest_hex d) = 71"
  by (simp add: length_digest_hex)

lemma timingSafeEqual_same_length:
  "length a = length b \<Longrightarrow> timingSafeEqual a b = Inr (a = b)"
  by (simp add: timingSafeEqual_def)

text \<open>
  What the check does on a header of the right byte length: it accepts the expected value
  and turns down every other one.
\<close>

lemma verifyGithubSignature_accepts_expected:
  assumes "GITHUB_WEBHOOK_SECRET cfg = Some secret" "secret \<noteq> []"
    and "headers req ''x-hub-signature-256'' =
           Some (''sha256='' @ digest_hex (hmac_sha256 rt secret (JSON_stringify rt (body req))))"
  shows "verifyGithubSignature rt cfg req w = (Inr True, w)"
proof -
  define good where
    "good = ''sha256='' @ digest_hex (hmac_sha256 rt secret (JSON_stringify rt (body req)))"
  have "length good = 71" unfolding good_def by (rule length_expected_signature)
  then have "good \<noteq> []" by auto
  moreover have "headers req ''x-hub-signature-256'' = Some good"
    unfolding good_def by (rule assms(3))
  ultimately have "verifyGithubSignature rt cfg req w =
      (timingSafeEqual (Buffer_from good) (Buffer_from good), w)"
    using assms(1,2) unfolding good_def by (intro verify_compare)
  then show ?thesis by (simp add: timingSafeEqual_def)
qed

lemma verifyGithubSignature_rejects_other:
  assumes "GITHUB_WEBHOOK_SECRET cfg = Some secret" "secret \<noteq> []"
    and "headers req ''x-hub-signature-256'' = Some signature"
    and "length (Buffer_from signature) = 71"
    and "signature \<noteq> ''sha256='' @ digest_hex (hmac_sha256 rt secret (JSON_stringify rt (body req)))"
  shows "verifyGithubSignature rt cfg req w = (Inr False, w)"
proof -
  define good where
    "good = ''sha256='' @ digest_hex (hmac_sha256 rt secret (JSON_stringify rt (body req)))"
  have len: "length (Buffer_from good) = 71"
    unfolding good_def by (rule length_digest_buffer)
  from assms(4) have "signature \<noteq> []" by (auto simp: Buffer_from_def)
  with assms(1-3) have "verifyGithubSignature rt cfg req w =
      (timingSafeEqual (Buffer_from signature) (Buffer_from good), w)"
    unfolding good_def by (intro verify_compare)
  moreover have "Buffer_from signature \<noteq> Buffer_from good"
    using assms(5) Buffer_from_inj unfolding good_def by blast
  ultimately show ?thesis using len assms(4) by (simp add: timingSafeEqual_same_length)
qed

text \<open>
  A signature made for one body and sent with another: the check says whether the two
  digests are the same.
\<close>

lemma verifyGithubSignature_changed_body:
  assumes "GITHUB_WEBHOOK_SECRET cfg = Some secret" "secret \<noteq> []"
    and "headers req ''x-hub-signature-256'' =
           Some (''sha256='' @ digest_hex (hmac_sha256 rt secret (JSON_stringify rt signed_body)))"
  shows "fst (verifyGithubSignature rt cfg req w) =
           Inr (digest_hex (hmac_sha256 rt secret (JSON_stringify rt (body req))) =
                digest_hex (hmac_sha256 rt secret (JSON_stringify rt signed_body)))"
proof (cases "digest_hex (hmac_sha256 rt secret (JSON_stringify rt (body req))) =
              digest_hex (hmac_sha256 rt secret (JSON_stringify rt signed_body))")
  case True
  with assms show ?thesis
    using verifyGithubSignature_accepts_expected [of cfg secret req rt w] by simp
next
  case False
  define sent where
    "sent = ''sha256='' @ digest_hex (hmac_sha256 rt secret (JSON_stringify rt signed_body))"
  have "length (Buffer_from sent) = 71"
    unfolding sent_def by (rule length_digest_buffer)
  moreover have "sent \<noteq>
      ''sha256='' @ digest_hex (hmac_sha256 rt secret (JSON_stringify rt (body req)))"
    unfolding sent_def using False by (simp only: same_append_eq) simp
  moreover have "headers req ''x-hub-signature-256'' = Some sent"
    unfolding sent_def by (rule assms(3))
  ultimately have "verifyGithubSignature rt cfg req w = (Inr False, w)"
    using assms(1,2) by (intro verifyGithubSignature_rejects_other)
  with False show ?thesis by simp
qed

subsection \<open>Claims about the signature check\<close>

text \<open>
  C1. With a signing secret configured, a request whose signature header is
  \<^verbatim>\<open>sha256=\<close> followed by the hex HMAC of the serialized body is accepted, and one byte
  of the signature changed is to give \<open>false\<close>. The second half does not hold of the code:
  when the changed byte is 128 or more, its code unit takes two bytes in
  \<^verbatim>\<open>Buffer.from\<close>, the supplied buffer has 72 bytes against the 71 of the expected one,
  and \<^verbatim>\<open>crypto.timingSafeEqual\<close> throws. The theorem is that run, for every secret,
  body, position and such byte.
\<close>

theorem verifyGithubSignature_mutated_signature_throws:
  assumes "GITHUB_WEBHOOK_SECRET cfg = Some secret" "secret \<noteq> []"
    and "i < 71" "\<not> (of_char c :: nat) < 128"
    and "headers req ''x-hub-signature-256'' =
           Some ((''sha256='' @ digest_hex (hmac_sha256 rt secret (JSON_stringify rt (body req))))
                   [i := c])"
  shows "fst (verifyGithubSignature rt cfg req w) =
           Inl (RangeError ''Input buffers must have the same byte length'')"
proof -
  define good where
    "good = ''sha256='' @ digest_hex (hmac_sha256 rt secret (JSON_stringify rt (body req)))"
  have len: "length good = 71"
    unfolding good_def by (rule length_expected_signature)
  with \<open>i < 71\<close> have "i < length good" by simp
  then have "length good < length (Buffer_from (good[i := c]))"
    using assms(4) by (rule mutated_buffer_longer)
  with len have "length (Buffer_from (good[i := c])) \<noteq> 71" by simp
  moreover have "good[i := c] \<noteq> []" using len by auto
  moreover have "headers req ''x-hub-signature-256'' = Some (good[i := c])"
    unfolding good_def by (rule assms(5))
  ultimately have "verifyGithubSignature rt cfg req w =
      (Inl (RangeError ''Input buffers must have the same byte length''), w)"
    using assms(1,2) by (intro verify_length_mismatch)
  then show ?thesis by (simp only: fst_conv)
qed

theorem verifyGithubSignature_mutated_signature_throws_witness:
  "GITHUB_WEBHOOK_SECRET sample_config = Some ''hook-secret'' \<and> (10::nat) < 71 \<and>
   \<not> (of_char (CHR 0xE9) :: nat) < 128 \<and>
   fst (verifyGithubSignature sample_runtime sample_config
      \<lparr>headers = [''x-hub-signature-256'' \<mapsto>
          (''sha256='' @ digest_hex (hmac_sha256 sample_runtime ''hook-secret''
               (JSON_stringify sample_runtime empty_payload)))[10 := CHR 0xE9]],
       params = Map.empty, body = empty_payload\<rparr> quiet) =
     Inl (RangeError ''Input buffers must have the same byte length'')"
  using verifyGithubSignature_mutated_signature_throws [of sample_config "''hook-secret''" 10
      "CHR 0xE9"
      "\<lparr>headers = [''x-hub-signature-256'' \<mapsto>
          (''sha256='' @ digest_hex (hmac_sha256 sample_runtime ''hook-secret''
               (JSON_stringify sample_runtime empty_payload)))[10 := CHR 0xE9]],
       params = Map.empty, body = empty_payload\<rparr>" sample_runtime quiet]
  by (simp add: sample_config_def)


text \<open>
  C2. Without a signing secret (the variable unset or empty) the check answers \<open>true\<close>
  whatever the body and the headers are, and writes the warning.
\<close>

theorem verifyGithubSignature_bypass:
  "\<not> truthy (GITHUB_WEBHOOK_SECRET cfg) \<Longrightarrow>
     verifyGithubSignature rt cfg req w =
       (Inr True, console_warn
          [Text ''GitHub webhook secret not configured - skipping signature verification''] w)"
  by (auto simp: verifyGithubSignature_def truthy_def Let_def split: option.splits)

theorem verifyGithubSignature_bypass_witness:
  "\<not> truthy (GITHUB_WEBHOOK_SECRET (sample_config\<lparr>GITHUB_WEBHOOK_SECRET := None\<rparr>)) \<and>
   verifyGithubSignature sample_runtime (sample_config\<lparr>GITHUB_WEBHOOK_SECRET := None\<rparr>)
      \<lparr>headers = [''x-hub-signature-256'' \<mapsto> ''not a signature''], params = Map.empty,
       body = empty_payload\<rparr> quiet =
     (Inr True, console_warn
        [Text ''GitHub webhook secret not configured - skipping signature verification''] quiet)"
  using verifyGithubSignature_bypass [of "sample_config\<lparr>GITHUB_WEBHOOK_SECRET := None\<rparr>"
      sample_runtime
      "\<lparr>headers = [''x-hub-signature-256'' \<mapsto> ''not a signature''], params = Map.empty,
        body = empty_payload\<rparr>" quiet]
  by (simp add: truthy_def sample_config_def)


text \<open>
  C8. With a signing secret configured and no signature header in the request, the check
  returns \<open>false\<close> (a value, not an exception) and writes the error line.
\<close>

theorem verifyGithubSignature_missing_header:
  assumes "truthy (GITHUB_WEBHOOK_SECRET cfg)"
    and "headers req ''x-hub-signature-256'' = None"
  shows "verifyGithubSignature rt cfg req w =
           (Inr False, console_error [Text ''No X-Hub-Signature-256 header in request''] w)"
  using assms by (auto simp: verifyGithubSignature_def truthy_def Let_def split: option.splits)

theorem verifyGithubSignature_missing_header_witness:
  "truthy (GITHUB_WEBHOOK_SECRET sample_config) \<and>
   headers \<lparr>headers = Map.empty, params = Map.empty, body = empty_payload\<rparr>
      ''x-hub-signature-256'' = None \<and>
   verifyGithubSignature sample_runtime sample_config
      \<lparr>headers = Map.empty, params = Map.empty, body = empty_payload\<rparr> quiet =
     (Inr False, console_error [Text ''No X-Hub-Signature-256 header in request''] quiet)"
  using verifyGithubSignature_missing_header [of sample_config
      "\<lparr>headers = Map.empty, params = Map.empty, body = empty_payload\<rparr>" sample_runtime quiet]
  by (simp add: truthy_def sample_config_def)







section \<open>The token check\<close>

text \<open>
  C7 as stated: a token header that is present and differs from the configured secret gets
  403. The code tests \<^verbatim>\<open>!authToken\<close> first, so a header sent with an empty value is
  answered 401 like a missing one. The instance: the header is there, it is not the secret,
  and the answer is 401.
\<close>

theorem authenticateWebhook_empty_token_counterexample:
  "headers (token_request (Some [])) ''x-webhook-token'' = Some []
   \<and> Some [] \<noteq> MAKE_WEBHOOK_SECRET sample_config
   \<and> authenticateWebhook sample_config (token_request (Some [])) =
       Respond \<lparr>status_code = 401,
         json = [(''status'', ''error''), (''message'', ''Authentication token missing'')]\<rparr>"
  by (simp add: authenticateWebhook_def token_request_def sample_config_def truthy_def)

text \<open>
  C7, amended. A token header that is missing or empty gets 401, one that is not empty and
  differs from the configured secret gets 403, and in both cases the endpoint answers
  without running the route (the world is as it was, whatever the handlers are). A header
  that is not empty and equals the configured secret lets the request through to the route.
\<close>

theorem authenticateWebhook_outcomes:
  "(\<not> truthy (headers req ''x-webhook-token'') \<longrightarrow>
      authenticateWebhook cfg req = Respond \<lparr>status_code = 401,
         json = [(''status'', ''error''), (''message'', ''Authentication token missing'')]\<rparr>
      \<and> make_webhook mrt cfg req w = (\<lparr>status_code = 401,
         json = [(''status'', ''error''), (''message'', ''Authentication token missing'')]\<rparr>, w))
   \<and> (truthy (headers req ''x-webhook-token'')
        \<and> headers req ''x-webhook-token'' \<noteq> MAKE_WEBHOOK_SECRET cfg \<longrightarrow>
      authenticateWebhook cfg req = Respond \<lparr>status_code = 403,
         json = [(''status'', ''error''), (''message'', ''Invalid authentication token'')]\<rparr>
      \<and> make_webhook mrt cfg req w = (\<lparr>status_code = 403,
         json = [(''status'', ''error''), (''message'', ''Invalid authentication token'')]\<rparr>, w))
   \<and> (truthy (headers req ''x-webhook-token'')
        \<and> headers req ''x-webhook-token'' = MAKE_WEBHOOK_SECRET cfg \<longrightarrow>
      authenticateWebhook cfg req = Next
      \<and> make_webhook mrt cfg req w = make_route mrt req w)"
  by (auto simp: authenticateWebhook_def make_webhook_def Let_def)

theorem authenticateWebhook_outcomes_witness:
  "(\<not> truthy (headers (token_request None) ''x-webhook-token'')
      \<and> make_webhook sample_make_runtime sample_config (token_request None) quiet =
         (\<lparr>status_code = 401,
           json = [(''status'', ''error''), (''message'', ''Authentication token missing'')]\<rparr>, quiet))
   \<and> (truthy (headers (token_request (Some ''guess'')) ''x-webhook-token'')
      \<and> headers (token_request (Some ''guess'')) ''x-webhook-token'' \<noteq> MAKE_WEBHOOK_SECRET sample_config
      \<and> make_webhook sample_make_runtime sample_config (token_request (Some ''guess'')) quiet =
         (\<lparr>status_code = 403,
           json = [(''status'', ''error''), (''message'', ''Invalid authentication token'')]\<rparr>, quiet))
   \<and> (truthy (headers (token_request (Some ''make-secret'')) ''x-webhook-token'')
      \<and> headers (token_request (Some ''make-secret'')) ''x-webhook-token'' = MAKE_WEBHOOK_SECRET sample_config
      \<and> authenticateWebhook sample_config (token_request (Some ''make-secret'')) = Next)"
  using authenticateWebhook_outcomes [of "token_request None" sample_config sample_make_runtime quiet]
    authenticateWebhook_outcomes [of "token_request (Some ''guess'')" sample_config sample_make_runtime quiet]
    authenticateWebhook_outcomes [of "token_request (Some ''make-secret'')" sample_config sample_make_runtime quiet]
  by (simp add: token_request_def sample_config_def truthy_def)

section \<open>The task client\<close>

text \<open>
  C9. Without an API token, or with the list identifier of the task unset, createClickUpTask
  returns normally and makes no outbound call. With both set and the call to the task API
  failing, it makes that one call, writes the message of the error to the console, then
  the body the API sent with the failure when there is one, and throws the error on to its
  caller.
\<close>

theorem createClickUpTask_outcomes:
  "(\<not> truthy (CLICKUP_API_TOKEN cfg) \<or> \<not> truthy (listId t) \<longrightarrow>
      fst (createClickUpTask rt cfg t w) = Inr None
      \<and> outbound (snd (createClickUpTask rt cfg t w)) = outbound w)
   \<and> (truthy (CLICKUP_API_TOKEN cfg) \<and> truthy (listId t)
        \<and> axios_post rt (outbound w) (task_request cfg t) = Inl err \<longrightarrow>
      fst (createClickUpTask rt cfg t w) = Inl err
      \<and> outbound (snd (createClickUpTask rt cfg t w)) = outbound w @ [task_request cfg t]
      \<and> console (snd (createClickUpTask rt cfg t w)) =
          console w @ (ERROR, [Text ''Error creating ClickUp task:'', Text (message err)])
            # (case response_data err of
                 None \<Rightarrow> []
               | Some d \<Rightarrow> [(ERROR, [Text ''ClickUp API response:'', Json d])]))"
  by (auto simp: createClickUpTask_def Let_def console_log_def console_error_def
      split: option.splits)

theorem createClickUpTask_outcomes_witness:
  "(\<not> truthy (CLICKUP_API_TOKEN (sample_config\<lparr>CLICKUP_API_TOKEN := None\<rparr>))
      \<and> createClickUpTask sample_runtime (sample_config\<lparr>CLICKUP_API_TOKEN := None\<rparr>) sample_task quiet =
          (Inr None,
           console_log [Text ''ClickUp integration not configured (missing API token)''] quiet))
   \<and> (truthy (CLICKUP_API_TOKEN sample_config) \<and> truthy (listId sample_task)
      \<and> axios_post failing_runtime (outbound quiet) (task_request sample_config sample_task) =
          Inl (AxiosError ''Request failed with status code 401'' (Some ''OAUTH_025''))
      \<and> fst (createClickUpTask failing_runtime sample_config sample_task quiet) =
          Inl (AxiosError ''Request failed with status code 401'' (Some ''OAUTH_025''))
      \<and> console (snd (createClickUpTask failing_runtime sample_config sample_task quiet)) =
          [(ERROR, [Text ''Error creating ClickUp task:'',
                    Text ''Request failed with status code 401'']),
           (ERROR, [Text ''ClickUp API response:'', Json ''OAUTH_025''])])"
  using createClickUpTask_outcomes [of "sample_config\<lparr>CLICKUP_API_TOKEN := None\<rparr>" sample_task
      sample_runtime quiet "Thrown []"]
    createClickUpTask_outcomes [of sample_config sample_task failing_runtime quiet
      "AxiosError ''Request failed with status code 401'' (Some ''OAUTH_025'')"]
  by (simp add: sample_config_def sample_task_def failing_runtime_def sample_runtime_def quiet_def
      truthy_def createClickUpTask_def console_log_def)

section \<open>The handlers\<close>

subsection \<open>The code's matching and the specification's\<close>

lemma includes_str_iff:
  "includes_str s t \<longleftrightarrow> (\<exists>i\<le>length s. take (length t) (drop i s) = t)"
proof (induction s)
  case Nil
  then show ?case by auto
next
  case (Cons c cs)
  have "(\<exists>i\<le>length (c # cs). take (length t) (drop i (c # cs)) = t)
      \<longleftrightarrow> take (length t) (c # cs) = t \<or> (\<exists>i\<le>length cs. take (length t) (drop i cs) = t)"
    (is "?L \<longleftrightarrow> ?A \<or> ?B")
  proof
    assume ?L
    then obtain i where i: "i \<le> length (c # cs)" "take (length t) (drop i (c # cs)) = t" by blast
    show "?A \<or> ?B"
    proof (cases i)
      case 0
      with i show ?thesis by simp
    next
      case (Suc j)
      with i have "j \<le> length cs" "take (length t) (drop j cs) = t" by simp_all
      then show ?thesis by blast
    qed
  next
    assume "?A \<or> ?B"
    then show ?L
    proof
      assume ?A
      then have "take (length t) (drop 0 (c # cs)) = t" by simp
      then show ?L by blast
    next
      assume ?B
      then obtain j where "j \<le> length cs" "take (length t) (drop j cs) = t" by blast
      then have "Suc j \<le> length (c # cs)" "take (length t) (drop (Suc j) (c # cs)) = t" by simp_all
      then show ?L by blast
    qed
  qed
  with Cons show ?case by (simp add: startsWith_def)
qed

lemma toLowerCase_todo: "toLowerCase ''todo'' = ''todo''"
  by (simp add: toLowerCase_def toLowerCase_char_def)

lemma toLowerCase_stack: "toLowerCase ''stack'' = ''stack''"
  by (simp add: toLowerCase_def toLowerCase_char_def)

lemma toLowerCase_immortal_stack: "toLowerCase ''immortal-stack'' = ''immortal-stack''"
  by (simp add: toLowerCase_def toLowerCase_char_def)

lemma contains_ignoring_case_iff:
  "contains_ignoring_case s t \<longleftrightarrow>
     (\<exists>i\<le>length s. toLowerCase (take (length t) (drop i s)) = toLowerCase t)"
proof -
  have "set [0..<Suc (length s)] = {i. i \<le> length s}" by auto
  then show ?thesis
    by (simp add: contains_ignoring_case_def same_ignoring_case_def list_ex_iff)
qed

lemma includes_lower_iff:
  assumes "toLowerCase t = t"
  shows "includes_str (toLowerCase m) t \<longleftrightarrow> contains_ignoring_case m t"
proof -
  have "contains_ignoring_case m t
      \<longleftrightarrow> (\<exists>i\<le>length m. toLowerCase (take (length t) (drop i m)) = t)"
    by (simp add: contains_ignoring_case_iff assms)
  also have "\<dots> \<longleftrightarrow>
      (\<exists>i\<le>length (toLowerCase m). take (length t) (drop i (toLowerCase m)) = t)"
    by (simp add: toLowerCase_def take_map drop_map)
  also have "\<dots> \<longleftrightarrow> includes_str (toLowerCase m) t"
    by (simp only: includes_str_iff)
  finally show ?thesis by simp
qed

lemma includes_todo_iff:
  "includes_str (toLowerCase m) ''todo'' \<longleftrightarrow> contains_ignoring_case m ''todo''"
  using toLowerCase_todo by (rule includes_lower_iff)

lemma hasStackLabel_iff:
  "hasStackLabel i \<longleftrightarrow>
     (\<exists>l\<in>set (labels i). same_ignoring_case (label_name l) ''stack''
                        \<or> same_ignoring_case (label_name l) ''immortal-stack'')"
  by (simp add: hasStackLabel_def list_ex_iff same_ignoring_case_def toLowerCase_stack
      toLowerCase_immortal_stack)


subsection \<open>A task creation that succeeds\<close>

lemma createClickUpTask_created:
  assumes "truthy (CLICKUP_API_TOKEN cfg)" "truthy (listId t)"
    and "axios_post rt (outbound w) (task_request cfg t) = Inr created"
  shows "createClickUpTask rt cfg t w =
           (Inr (Some created),
            console_log [Text (''Created ClickUp task: '' @ task_id created @ '' - '' @ task_name t)]
              (w\<lparr>outbound := outbound w @ [task_request cfg t]\<rparr>))"
  using assms by (simp add: createClickUpTask_def Let_def)

lemma createClickUpTask_succeeds:
  assumes "truthy (CLICKUP_API_TOKEN cfg)" "truthy (listId t)"
    and "\<forall>earlier post. \<exists>created. axios_post rt earlier post = Inr created"
  shows "\<exists>created w'. createClickUpTask rt cfg t w = (Inr created, w')
           \<and> outbound w' = outbound w @ [task_request cfg t]"
proof -
  from assms(3) obtain created where
    "axios_post rt (outbound w) (task_request cfg t) = Inr created" by blast
  with assms(1,2) show ?thesis
    by (simp add: createClickUpTask_created console_log_def)
qed

lemma outbound_console_log [simp]: "outbound (console_log args w) = outbound w"
  by (simp add: console_log_def)

lemma push_commits_posts:
  assumes "truthy (CLICKUP_API_TOKEN cfg)" "truthy (CLICKUP_TODO_LIST_ID cfg)"
    and "\<forall>earlier post. \<exists>created. axios_post rt earlier post = Inr created"
  shows "fst (push_commits rt cfg repo branch cs w) = Inr ()
       \<and> outbound (snd (push_commits rt cfg repo branch cs w)) =
           outbound w @ map (\<lambda>c. task_request cfg (push_task cfg repo branch c))
             (filter (\<lambda>c. includes_str (toLowerCase (commit_message c)) ''todo'') cs)"
proof (induction cs arbitrary: w)
  case Nil
  show ?case by simp
next
  case (Cons c cs)
  show ?case
  proof (cases "includes_str (toLowerCase (commit_message c)) ''todo''")
    case False
    with Cons.IH [of w] show ?thesis by simp
  next
    case True
    have "truthy (listId (push_task cfg repo branch c))"
      using assms(2) by (simp add: push_task_def)
    with assms(1,3) obtain created w1 where
      step: "createClickUpTask rt cfg (push_task cfg repo branch c) w = (Inr created, w1)"
        "outbound w1 = outbound w @ [task_request cfg (push_task cfg repo branch c)]"
      using createClickUpTask_succeeds by blast
    with True Cons.IH [of w1] show ?thesis by simp
  qed
qed

lemma push_request_shape:
  "post_tags (task_request cfg (push_task cfg repo branch c)) = [''github'', ''todo'', ''commit'']
   \<and> post_url (task_request cfg (push_task cfg repo branch c)) =
       CLICKUP_API_URL @ ''/list/'' @ to_string (CLICKUP_TODO_LIST_ID cfg) @ ''/task''"
  by (simp add: task_request_def push_task_def)

subsection \<open>The sample messages and labels\<close>

lemma sample_messages:
  "contains_ignoring_case ''todo: fix bug'' ''todo''"
  "\<not> contains_ignoring_case ''Bump version'' ''todo''"
  "contains_ignoring_case ''Parser (ToDo later)'' ''todo''"
  by code_simp+

lemma sample_labels:
  "\<not> same_ignoring_case ''bug'' ''stack''" "\<not> same_ignoring_case ''bug'' ''immortal-stack''"
  "same_ignoring_case ''Immortal-Stack'' ''immortal-stack''"
  by code_simp+

subsection \<open>Claims about the handlers\<close>

text \<open>
  C3. A push payload with its ref, repository and commits, of which exactly K commits have a
  message that contains \<^verbatim>\<open>todo\<close> case-insensitively: with the task client configured
  (API token and TODO list) and every call to the task API succeeding, the push handler
  returns normally and makes exactly K calls, one for each such commit in the order of the
  commits, each with the tags \<^verbatim>\<open>github, todo, commit\<close> and to the TODO list.
\<close>

theorem handlePushEvent_one_task_per_todo_commit:
  assumes "truthy (CLICKUP_API_TOKEN cfg)" "truthy (CLICKUP_TODO_LIST_ID cfg)"
    and "\<forall>earlier post. \<exists>created. axios_post rt earlier post = Inr created"
    and "ref data = Some r" "repository data = Some repo" "commits data = Some cs"
  shows "fst (handlePushEvent rt cfg data w) = Inr ()
       \<and> outbound (snd (handlePushEvent rt cfg data w)) =
           outbound w @ map (\<lambda>c. task_request cfg (push_task cfg repo (replace_first ''refs/heads/'' [] r) c))
             (filter (\<lambda>c. contains_ignoring_case (commit_message c) ''todo'') cs)
       \<and> length (outbound (snd (handlePushEvent rt cfg data w))) =
           length (outbound w)
             + length (filter (\<lambda>c. contains_ignoring_case (commit_message c) ''todo'') cs)
       \<and> (\<forall>p\<in>set (drop (length (outbound w)) (outbound (snd (handlePushEvent rt cfg data w)))).
            post_tags p = [''github'', ''todo'', ''commit'']
            \<and> post_url p = CLICKUP_API_URL @ ''/list/'' @ to_string (CLICKUP_TODO_LIST_ID cfg) @ ''/task'')"
proof -
  define branch where "branch = replace_first ''refs/heads/'' [] r"
  define w0 where "w0 = console_log [Text (''Push to '' @ full_name repo @ '' on branch '' @ branch
       @ '' with '' @ nat_to_string (length cs) @ '' commits'')] w"
  have run: "handlePushEvent rt cfg data w = push_commits rt cfg repo branch cs w0"
    using assms(4-6) by (simp add: handlePushEvent_def Let_def branch_def w0_def)
  have loop: "fst (push_commits rt cfg repo branch cs w0) = Inr ()"
    "outbound (snd (push_commits rt cfg repo branch cs w0)) =
       outbound w @ map (\<lambda>c. task_request cfg (push_task cfg repo branch c))
         (filter (\<lambda>c. contains_ignoring_case (commit_message c) ''todo'') cs)"
    using push_commits_posts [OF assms(1-3), of repo branch cs w0]
    by (simp_all add: includes_todo_iff w0_def)
  show ?thesis
    unfolding run branch_def [symmetric]
    using loop by (auto simp: push_request_shape)
qed

theorem handlePushEvent_one_task_per_todo_commit_witness:
  "truthy (CLICKUP_API_TOKEN sample_config) \<and> truthy (CLICKUP_TODO_LIST_ID sample_config)
   \<and> (\<forall>earlier post. \<exists>created. axios_post sample_runtime earlier post = Inr created)
   \<and> ref sample_push = Some ''refs/heads/main''
   \<and> repository sample_push = Some sample_repository
   \<and> commits sample_push = Some [sample_commit ''todo: fix bug'', sample_commit ''Bump version'',
                                  sample_commit ''Parser (ToDo later)'']
   \<and> fst (handlePushEvent sample_runtime sample_config sample_push quiet) = Inr ()
   \<and> outbound (snd (handlePushEvent sample_runtime sample_config sample_push quiet)) =
       [task_request sample_config
          (push_task sample_config sample_repository ''main'' (sample_commit ''todo: fix bug'')),
        task_request sample_config
          (push_task sample_config sample_repository ''main'' (sample_commit ''Parser (ToDo later)''))]
   \<and> length (outbound (snd (handlePushEvent sample_runtime sample_config sample_push quiet))) = 2"
  using handlePushEvent_one_task_per_todo_commit [of sample_config sample_runtime sample_push
      "''refs/heads/main''" sample_repository
      "[sample_commit ''todo: fix bug'', sample_commit ''Bump version'',
        sample_commit ''Parser (ToDo later)'']" quiet]
  by (simp add: sample_config_def sample_runtime_def sample_push_def empty_payload_def quiet_def
      truthy_def sample_messages startsWith_def sample_commit_def)

text \<open>
  C4. A pull-request event whose action is neither \<^verbatim>\<open>opened\<close> nor \<^verbatim>\<open>reopened\<close>
  produces no task. One that is opened or reopened against a base branch other than
  \<^verbatim>\<open>main\<close> and \<^verbatim>\<open>master\<close> produces no task. One that is opened or reopened against
  \<^verbatim>\<open>main\<close> or \<^verbatim>\<open>master\<close> produces, with the task client configured and the task
  API succeeding, exactly one task, with the tags \<^verbatim>\<open>github, pull-request\<close> and the
  repository name, to the code-reviews list.
\<close>

theorem handlePullRequestEvent_tasks:
  "(action data \<noteq> Some ''opened'' \<and> action data \<noteq> Some ''reopened'' \<longrightarrow>
      handlePullRequestEvent rt cfg data w = (Inr (), w))
   \<and> ((action data = Some ''opened'' \<or> action data = Some ''reopened'')
        \<and> pull_request data = Some pr
        \<and> branch_ref (pr_base pr) \<noteq> ''main'' \<and> branch_ref (pr_base pr) \<noteq> ''master'' \<longrightarrow>
      fst (handlePullRequestEvent rt cfg data w) = Inr ()
      \<and> outbound (snd (handlePullRequestEvent rt cfg data w)) = outbound w)
   \<and> ((action data = Some ''opened'' \<or> action data = Some ''reopened'')
        \<and> pull_request data = Some pr
        \<and> (branch_ref (pr_base pr) = ''main'' \<or> branch_ref (pr_base pr) = ''master'')
        \<and> repository data = Some repo
        \<and> truthy (CLICKUP_API_TOKEN cfg) \<and> truthy (CLICKUP_CODE_REVIEWS_LIST_ID cfg)
        \<and> (\<forall>earlier post. \<exists>created. axios_post rt earlier post = Inr created) \<longrightarrow>
      fst (handlePullRequestEvent rt cfg data w) = Inr ()
      \<and> outbound (snd (handlePullRequestEvent rt cfg data w)) =
          outbound w @ [task_request cfg (pull_request_task cfg repo pr)]
      \<and> post_tags (task_request cfg (pull_request_task cfg repo pr)) =
          [''github'', ''pull-request'', name repo]
      \<and> post_url (task_request cfg (pull_request_task cfg repo pr)) =
          CLICKUP_API_URL @ ''/list/'' @ to_string (CLICKUP_CODE_REVIEWS_LIST_ID cfg) @ ''/task'')"
proof (intro conjI impI)
  assume "action data \<noteq> Some ''opened'' \<and> action data \<noteq> Some ''reopened''"
  then show "handlePullRequestEvent rt cfg data w = (Inr (), w)"
    by (simp add: handlePullRequestEvent_def)
next
  assume a: "(action data = Some ''opened'' \<or> action data = Some ''reopened'')
        \<and> pull_request data = Some pr
        \<and> branch_ref (pr_base pr) \<noteq> ''main'' \<and> branch_ref (pr_base pr) \<noteq> ''master''"
  then have "handlePullRequestEvent rt cfg data w =
      (Inr (), console_log [Text (''Skipping PR to '' @ branch_ref (pr_base pr)
               @ '' branch (only tracking main/master)'')] w)"
    by (auto simp: handlePullRequestEvent_def)
  then show "fst (handlePullRequestEvent rt cfg data w) = Inr ()"
    "outbound (snd (handlePullRequestEvent rt cfg data w)) = outbound w"
    by simp_all
next
  assume a: "(action data = Some ''opened'' \<or> action data = Some ''reopened'')
        \<and> pull_request data = Some pr
        \<and> (branch_ref (pr_base pr) = ''main'' \<or> branch_ref (pr_base pr) = ''master'')
        \<and> repository data = Some repo
        \<and> truthy (CLICKUP_API_TOKEN cfg) \<and> truthy (CLICKUP_CODE_REVIEWS_LIST_ID cfg)
        \<and> (\<forall>earlier post. \<exists>created. axios_post rt earlier post = Inr created)"
  define w0 where "w0 = console_log [Text (''New PR #'' @ number_to_string (pr_number pr) @ '' in ''
                   @ full_name repo @ '': '' @ pr_title pr)] w"
  from a have run: "handlePullRequestEvent rt cfg data w =
      discard (createClickUpTask rt cfg (pull_request_task cfg repo pr) w0)"
    by (auto simp: handlePullRequestEvent_def w0_def)
  from a have "truthy (listId (pull_request_task cfg repo pr))"
    by (simp add: pull_request_task_def)
  with a obtain created w1 where
    "createClickUpTask rt cfg (pull_request_task cfg repo pr) w0 = (Inr created, w1)"
    "outbound w1 = outbound w0 @ [task_request cfg (pull_request_task cfg repo pr)]"
    using createClickUpTask_succeeds [of cfg "pull_request_task cfg repo pr" rt w0] by blast
  with run show "fst (handlePullRequestEvent rt cfg data w) = Inr ()"
    "outbound (snd (handlePullRequestEvent rt cfg data w)) =
          outbound w @ [task_request cfg (pull_request_task cfg repo pr)]"
    by (simp_all add: discard_def w0_def)
  show "post_tags (task_request cfg (pull_request_task cfg repo pr)) =
          [''github'', ''pull-request'', name repo]"
    "post_url (task_request cfg (pull_request_task cfg repo pr)) =
          CLICKUP_API_URL @ ''/list/'' @ to_string (CLICKUP_CODE_REVIEWS_LIST_ID cfg) @ ''/task''"
    by (simp_all add: task_request_def pull_request_task_def)
qed

theorem handlePullRequestEvent_tasks_witness:
  "(action (sample_pr_event ''closed'' ''main'') \<noteq> Some ''opened''
      \<and> action (sample_pr_event ''closed'' ''main'') \<noteq> Some ''reopened''
      \<and> handlePullRequestEvent sample_runtime sample_config (sample_pr_event ''closed'' ''main'') quiet
          = (Inr (), quiet))
   \<and> (action (sample_pr_event ''opened'' ''develop'') = Some ''opened''
      \<and> branch_ref (pr_base (sample_pull_request ''develop'')) \<noteq> ''main''
      \<and> branch_ref (pr_base (sample_pull_request ''develop'')) \<noteq> ''master''
      \<and> outbound (snd (handlePullRequestEvent sample_runtime sample_config
            (sample_pr_event ''opened'' ''develop'') quiet)) = [])
   \<and> (action (sample_pr_event ''opened'' ''main'') = Some ''opened''
      \<and> branch_ref (pr_base (sample_pull_request ''main'')) = ''main''
      \<and> truthy (CLICKUP_API_TOKEN sample_config) \<and> truthy (CLICKUP_CODE_REVIEWS_LIST_ID sample_config)
      \<and> (\<forall>earlier post. \<exists>created. axios_post sample_runtime earlier post = Inr created)
      \<and> outbound (snd (handlePullRequestEvent sample_runtime sample_config
            (sample_pr_event ''opened'' ''main'') quiet)) =
          [task_request sample_config
             (pull_request_task sample_config sample_repository (sample_pull_request ''main''))]
      \<and> post_tags (task_request sample_config
             (pull_request_task sample_config sample_repository (sample_pull_request ''main''))) =
          [''github'', ''pull-request'', ''stack'']
      \<and> post_url (task_request sample_config
             (pull_request_task sample_config sample_repository (sample_pull_request ''main''))) =
          ''https://api.clickup.com/api/v2/list/902/task'')"
  using handlePullRequestEvent_tasks [of "sample_pr_event ''closed'' ''main''" sample_runtime
      sample_config quiet "sample_pull_request ''main''" sample_repository]
    handlePullRequestEvent_tasks [of "sample_pr_event ''opened'' ''develop''" sample_runtime
      sample_config quiet "sample_pull_request ''develop''" sample_repository]
    handlePullRequestEvent_tasks [of "sample_pr_event ''opened'' ''main''" sample_runtime
      sample_config quiet "sample_pull_request ''main''" sample_repository]
  by (simp add: sample_pr_event_def sample_pull_request_def sample_repository_def
      sample_config_def sample_runtime_def empty_payload_def quiet_def truthy_def
      CLICKUP_API_URL_def to_string_def)

text \<open>
  C5. An issues event that is opened or reopened and has no label equal to \<^verbatim>\<open>stack\<close>
  or \<^verbatim>\<open>immortal-stack\<close> case-insensitively produces no task. With such a label it
  produces, with the task client configured and the task API succeeding, exactly one task,
  with the tags \<^verbatim>\<open>github, issue\<close> and the repository name, to the dev-backlog list.
\<close>

theorem handleIssuesEvent_tasks:
  "((action data = Some ''opened'' \<or> action data = Some ''reopened'')
        \<and> issue data = Some i
        \<and> \<not> (\<exists>l\<in>set (labels i). same_ignoring_case (label_name l) ''stack''
                                 \<or> same_ignoring_case (label_name l) ''immortal-stack'') \<longrightarrow>
      fst (handleIssuesEvent rt cfg data w) = Inr ()
      \<and> outbound (snd (handleIssuesEvent rt cfg data w)) = outbound w)
   \<and> ((action data = Some ''opened'' \<or> action data = Some ''reopened'')
        \<and> issue data = Some i
        \<and> (\<exists>l\<in>set (labels i). same_ignoring_case (label_name l) ''stack''
                               \<or> same_ignoring_case (label_name l) ''immortal-stack'')
        \<and> repository data = Some repo
        \<and> truthy (CLICKUP_API_TOKEN cfg) \<and> truthy (CLICKUP_DEV_BACKLOG_LIST_ID cfg)
        \<and> (\<forall>earlier post. \<exists>created. axios_post rt earlier post = Inr created) \<longrightarrow>
      fst (handleIssuesEvent rt cfg data w) = Inr ()
      \<and> outbound (snd (handleIssuesEvent rt cfg data w)) =
          outbound w @ [task_request cfg (issue_task cfg repo i)]
      \<and> post_tags (task_request cfg (issue_task cfg repo i)) = [''github'', ''issue'', name repo]
      \<and> post_url (task_request cfg (issue_task cfg repo i)) =
          CLICKUP_API_URL @ ''/list/'' @ to_string (CLICKUP_DEV_BACKLOG_LIST_ID cfg) @ ''/task'')"
proof (intro conjI impI)
  assume a: "(action data = Some ''opened'' \<or> action data = Some ''reopened'')
        \<and> issue data = Some i
        \<and> \<not> (\<exists>l\<in>set (labels i). same_ignoring_case (label_name l) ''stack''
                                 \<or> same_ignoring_case (label_name l) ''immortal-stack'')"
  then have "\<not> hasStackLabel i" by (simp add: hasStackLabel_iff)
  with a have "handleIssuesEvent rt cfg data w =
      (Inr (), console_log [Text (''Skipping issue #'' @ number_to_string (issue_number i)
               @ '' - no stack label'')] w)"
    by (auto simp: handleIssuesEvent_def)
  then show "fst (handleIssuesEvent rt cfg data w) = Inr ()"
    "outbound (snd (handleIssuesEvent rt cfg data w)) = outbound w"
    by simp_all
next
  assume a: "(action data = Some ''opened'' \<or> action data = Some ''reopened'')
        \<and> issue data = Some i
        \<and> (\<exists>l\<in>set (labels i). same_ignoring_case (label_name l) ''stack''
                               \<or> same_ignoring_case (label_name l) ''immortal-stack'')
        \<and> repository data = Some repo
        \<and> truthy (CLICKUP_API_TOKEN cfg) \<and> truthy (CLICKUP_DEV_BACKLOG_LIST_ID cfg)
        \<and> (\<forall>earlier post. \<exists>created. axios_post rt earlier post = Inr created)"
  then have lab: "hasStackLabel i" by (simp add: hasStackLabel_iff)
  define w0 where "w0 = console_log [Text (''New issue #'' @ number_to_string (issue_number i)
       @ '' in '' @ full_name repo @ '': '' @ issue_title i)] w"
  from a lab have run: "handleIssuesEvent rt cfg data w =
      discard (createClickUpTask rt cfg (issue_task cfg repo i) w0)"
    by (auto simp: handleIssuesEvent_def w0_def)
  from a have "truthy (listId (issue_task cfg repo i))"
    by (simp add: issue_task_def)
  with a obtain created w1 where
    "createClickUpTask rt cfg (issue_task cfg repo i) w0 = (Inr created, w1)"
    "outbound w1 = outbound w0 @ [task_request cfg (issue_task cfg repo i)]"
    using createClickUpTask_succeeds [of cfg "issue_task cfg repo i" rt w0] by blast
  with run show "fst (handleIssuesEvent rt cfg data w) = Inr ()"
    "outbound (snd (handleIssuesEvent rt cfg data w)) =
          outbound w @ [task_request cfg (issue_task cfg repo i)]"
    by (simp_all add: discard_def w0_def)
  show "post_tags (task_request cfg (issue_task cfg repo i)) = [''github'', ''issue'', name repo]"
    "post_url (task_request cfg (issue_task cfg repo i)) =
          CLICKUP_API_URL @ ''/list/'' @ to_string (CLICKUP_DEV_BACKLOG_LIST_ID cfg) @ ''/task''"
    by (simp_all add: task_request_def issue_task_def)
qed


theorem handleIssuesEvent_tasks_witness:
  "(action (sample_issue_event [''bug'']) = Some ''opened''
      \<and> \<not> (\<exists>l\<in>set (labels (sample_issue [''bug''])).
              same_ignoring_case (label_name l) ''stack''
              \<or> same_ignoring_case (label_name l) ''immortal-stack'')
      \<and> outbound (snd (handleIssuesEvent sample_runtime sample_config
            (sample_issue_event [''bug'']) quiet)) = [])
   \<and> (action (sample_issue_event [''bug'', ''Immortal-Stack'']) = Some ''opened''
      \<and> (\<exists>l\<in>set (labels (sample_issue [''bug'', ''Immortal-Stack''])).
              same_ignoring_case (label_name l) ''stack''
              \<or> same_ignoring_case (label_name l) ''immortal-stack'')
      \<and> truthy (CLICKUP_API_TOKEN sample_config) \<and> truthy (CLICKUP_DEV_BACKLOG_LIST_ID sample_config)
      \<and> (\<forall>earlier post. \<exists>created. axios_post sample_runtime earlier post = Inr created)
      \<and> outbound (snd (handleIssuesEvent sample_runtime sample_config
            (sample_issue_event [''bug'', ''Immortal-Stack'']) quiet)) =
          [task_request sample_config
             (issue_task sample_config sample_repository (sample_issue [''bug'', ''Immortal-Stack'']))]
      \<and> post_tags (task_request sample_config
             (issue_task sample_config sample_repository (sample_issue [''bug'', ''Immortal-Stack'']))) =
          [''github'', ''issue'', ''stack'']
      \<and> post_url (task_request sample_config
             (issue_task sample_config sample_repository (sample_issue [''bug'', ''Immortal-Stack'']))) =
          ''https://api.clickup.com/api/v2/list/901/task'')"
  using handleIssuesEvent_tasks [of "sample_issue_event [''bug'']" "sample_issue [''bug'']"
      sample_runtime sample_config quiet sample_repository]
    handleIssuesEvent_tasks [of "sample_issue_event [''bug'', ''Immortal-Stack'']"
      "sample_issue [''bug'', ''Immortal-Stack'']" sample_runtime sample_config quiet
      sample_repository]
  by (simp add: sample_issue_event_def sample_issue_def sample_repository_def
      sample_config_def sample_runtime_def empty_payload_def quiet_def truthy_def
      CLICKUP_API_URL_def to_string_def sample_labels)
section \<open>The two webhook routes\<close>

lemma github_route_200:
  assumes "fst (verifyGithubSignature rt cfg req w) = Inr True"
  shows "\<exists>r. fst (github_route process rt cfg req w) = Inr r \<and> status_code r = 200"
proof -
  have "fst (verifyGithubSignature rt cfg req (arrival req w)) = Inr True"
    using assms verify_value_any_world [of rt cfg req w "arrival req w"] by simp
  then obtain w1 where v: "verifyGithubSignature rt cfg req (arrival req w) = (Inr True, w1)"
    by (cases "verifyGithubSignature rt cfg req (arrival req w)") simp
  obtain out w2 where p: "process (body req) (headers req ''x-github-event'') w1 = (out, w2)"
    by (cases "process (body req) (headers req ''x-github-event'') w1")
  show ?thesis
    by (cases out) (simp_all add: github_route_def Let_def v p)
qed

lemma signed_request_passes:
  "secret \<noteq> [] \<Longrightarrow>
     verifyGithubSignature rt (sample_config\<lparr>GITHUB_WEBHOOK_SECRET := Some secret\<rparr>)
       (signed_request rt secret data) w = (Inr True, w)"
  by (rule verifyGithubSignature_accepts_expected) (simp_all add: signed_request_def)

lemma sample_config_secret:
  "sample_config\<lparr>GITHUB_WEBHOOK_SECRET := Some ''hook-secret''\<rparr> = sample_config"
  by (simp add: sample_config_def)

lemma signed_sample_passes:
  "verifyGithubSignature rt sample_config (signed_request rt ''hook-secret'' data) w = (Inr True, w)"
  using signed_request_passes [of "''hook-secret''" rt data w] by (simp add: sample_config_secret)

lemma sample_push_fails:
  "fst (dispatch failing_runtime sample_config sample_push (Some ''push'') w) =
     Inl (AxiosError ''Request failed with status code 401'' (Some ''OAUTH_025''))"
  by (simp add: dispatch_def handlePushEvent_def sample_push_def empty_payload_def Let_def
      includes_todo_iff sample_messages sample_commit_def createClickUpTask_def
      failing_runtime_def sample_runtime_def sample_config_def truthy_def push_task_def
      split: prod.splits)

text \<open>
  C6. A request to the GitHub webhook whose signature check passes is answered 200, whatever
  the processing does: when the call to processGithubEvent throws, the \<^verbatim>\<open>catch\<close> of the
  route answers 200 with status \<^verbatim>\<open>error\<close>; when a handler or the task client throws
  inside processGithubEvent, that returns status \<^verbatim>\<open>error\<close> and the route answers 200
  with it; so the route handler is never rejected for such a request, and the application
  answers it 200 whatever the framework does with a rejected handler. A
  request to the automation-platform webhook that passes the token check is answered 200, and
  with status \<^verbatim>\<open>error\<close> when the handler of its scenario throws.
\<close>

theorem webhook_errors_answered_200:
  "(fst (verifyGithubSignature rt cfg req w) = Inr True \<longrightarrow>
      (\<exists>r. fst (github_route process rt cfg req w) = Inr r \<and> status_code r = 200)
      \<and> (process (body req) (headers req ''x-github-event'')
            (snd (verifyGithubSignature rt cfg req (arrival req w))) = (Inl err, w2) \<longrightarrow>
          github_route process rt cfg req w =
            (Inr \<lparr>status_code = 200,
                  json = [(''status'', ''error''),
                          (''message'', ''Webhook received but processing failed''),
                          (''error'', message err)]\<rparr>,
             console_error [Text ''Error processing GitHub webhook:'', ErrorObject err] w2))
      \<and> (dispatch rt cfg (body req) (headers req ''x-github-event'')
            (processing rt (body req) (headers req ''x-github-event'')
               (snd (verifyGithubSignature rt cfg req (arrival req w)))) = (Inl err, w2) \<longrightarrow>
          github_webhook rt cfg req w =
            (Inr \<lparr>status_code = 200,
                  json = [(''status'', ''error''),
                          (''message'', ''Error processing GitHub event: '' @ message err)]
                         @ field ''eventType'' (headers req ''x-github-event'')
                         @ field ''deliveryId'' (headers req ''x-github-delivery'')
                         @ [(''timestamp'', toISOString_now rt)]\<rparr>,
             console_error [Text ''Error processing GitHub event:'', ErrorObject err] w2))
      \<and> map_option status_code (fst (post_api_github_webhook rejected rt cfg req w)) = Some 200)
   \<and> (authenticateWebhook cfg mreq = Next \<longrightarrow>
      status_code (fst (make_webhook mrt cfg mreq w)) = 200
      \<and> (scenario mrt (params mreq ''scenarioId'') (body mreq) (make_arrival mrt mreq w)
            = (Some err, w2) \<longrightarrow>
          make_webhook mrt cfg mreq w =
            (\<lparr>status_code = 200,
              json = [(''status'', ''error''),
                      (''message'', ''Webhook received but processing failed'')]\<rparr>,
             console_error [Text ''Error processing webhook:'', ErrorObject err] w2)))"
proof (intro conjI impI)
  assume pass: "fst (verifyGithubSignature rt cfg req w) = Inr True"
  then show "\<exists>r. fst (github_route process rt cfg req w) = Inr r \<and> status_code r = 200"
    by (rule github_route_200)
  have "fst (verifyGithubSignature rt cfg req (arrival req w)) = Inr True"
    using pass verify_value_any_world [of rt cfg req w "arrival req w"] by simp
  define w1 where "w1 = snd (verifyGithubSignature rt cfg req (arrival req w))"
  have v: "verifyGithubSignature rt cfg req (arrival req w) = (Inr True, w1)"
    using \<open>fst (verifyGithubSignature rt cfg req (arrival req w)) = Inr True\<close>
    unfolding w1_def by (cases "verifyGithubSignature rt cfg req (arrival req w)") simp
  {
    assume "process (body req) (headers req ''x-github-event'')
            (snd (verifyGithubSignature rt cfg req (arrival req w))) = (Inl err, w2)"
    then show "github_route process rt cfg req w =
            (Inr \<lparr>status_code = 200,
                  json = [(''status'', ''error''),
                          (''message'', ''Webhook received but processing failed''),
                          (''error'', message err)]\<rparr>,
             console_error [Text ''Error processing GitHub webhook:'', ErrorObject err] w2)"
      unfolding w1_def [symmetric] by (simp add: github_route_def Let_def v)
  }
  {
    assume "dispatch rt cfg (body req) (headers req ''x-github-event'')
            (processing rt (body req) (headers req ''x-github-event'')
               (snd (verifyGithubSignature rt cfg req (arrival req w)))) = (Inl err, w2)"
    then show "github_webhook rt cfg req w =
            (Inr \<lparr>status_code = 200,
                  json = [(''status'', ''error''),
                          (''message'', ''Error processing GitHub event: '' @ message err)]
                         @ field ''eventType'' (headers req ''x-github-event'')
                         @ field ''deliveryId'' (headers req ''x-github-delivery'')
                         @ [(''timestamp'', toISOString_now rt)]\<rparr>,
             console_error [Text ''Error processing GitHub event:'', ErrorObject err] w2)"
      unfolding w1_def [symmetric]
      by (simp add: github_webhook_def github_route_def processGithubEvent_def Let_def v)
  }
  from pass obtain r where "fst (github_webhook rt cfg req w) = Inr r" "status_code r = 200"
    unfolding github_webhook_def using github_route_200 by blast
  then show "map_option status_code (fst (post_api_github_webhook rejected rt cfg req w)) = Some 200"
    by (cases "github_webhook rt cfg req w") (simp add: post_api_github_webhook_def)
next
  assume n: "authenticateWebhook cfg mreq = Next"
  then show "status_code (fst (make_webhook mrt cfg mreq w)) = 200"
    by (simp add: make_webhook_def make_route_def Let_def split: prod.splits option.splits)
  assume "scenario mrt (params mreq ''scenarioId'') (body mreq) (make_arrival mrt mreq w)
            = (Some err, w2)"
  with n show "make_webhook mrt cfg mreq w =
            (\<lparr>status_code = 200,
              json = [(''status'', ''error''),
                      (''message'', ''Webhook received but processing failed'')]\<rparr>,
             console_error [Text ''Error processing webhook:'', ErrorObject err] w2)"
    by (simp add: make_webhook_def make_route_def Let_def)
qed

theorem webhook_errors_answered_200_witness:
  "(fst (verifyGithubSignature failing_runtime sample_config
           (signed_request failing_runtime ''hook-secret'' sample_push) quiet) = Inr True
      \<and> throwing_process sample_push (Some ''push'')
           (arrival (signed_request failing_runtime ''hook-secret'' sample_push) quiet) =
          (Inl (Thrown ''out of memory''),
           arrival (signed_request failing_runtime ''hook-secret'' sample_push) quiet)
      \<and> fst (github_route throwing_process failing_runtime sample_config
           (signed_request failing_runtime ''hook-secret'' sample_push) quiet) =
          Inr \<lparr>status_code = 200,
               json = [(''status'', ''error''),
                       (''message'', ''Webhook received but processing failed''),
                       (''error'', ''out of memory'')]\<rparr>)
   \<and> (fst (dispatch failing_runtime sample_config sample_push (Some ''push'')
            (processing failing_runtime sample_push (Some ''push'')
               (arrival (signed_request failing_runtime ''hook-secret'' sample_push) quiet))) =
          Inl (AxiosError ''Request failed with status code 401'' (Some ''OAUTH_025''))
      \<and> fst (github_webhook failing_runtime sample_config
           (signed_request failing_runtime ''hook-secret'' sample_push) quiet) =
          Inr \<lparr>status_code = 200,
               json = [(''status'', ''error''),
                       (''message'',
                        ''Error processing GitHub event: Request failed with status code 401''),
                       (''eventType'', ''push''), (''deliveryId'', ''72d3162e''),
                       (''timestamp'', ''2024-05-01T12:00:00.000Z'')]\<rparr>
      \<and> map_option status_code (fst (post_api_github_webhook unanswered failing_runtime
           sample_config (signed_request failing_runtime ''hook-secret'' sample_push) quiet))
          = Some 200)
   \<and> (authenticateWebhook sample_config (token_request (Some ''make-secret'')) = Next
      \<and> scenario sample_make_runtime (params (token_request (Some ''make-secret'')) ''scenarioId'')
           (body (token_request (Some ''make-secret'')))
           (make_arrival sample_make_runtime (token_request (Some ''make-secret'')) quiet) =
          (Some (Thrown ''memory store unreachable''),
           make_arrival sample_make_runtime (token_request (Some ''make-secret'')) quiet)
      \<and> fst (make_webhook sample_make_runtime sample_config
           (token_request (Some ''make-secret'')) quiet) =
          \<lparr>status_code = 200,
            json = [(''status'', ''error''),
                    (''message'', ''Webhook received but processing failed'')]\<rparr>)"
proof -
  let ?req = "signed_request failing_runtime ''hook-secret'' sample_push"
  let ?mreq = "token_request (Some ''make-secret'')"
  let ?failure = "AxiosError ''Request failed with status code 401'' (Some ''OAUTH_025'')"
  have pass: "fst (verifyGithubSignature failing_runtime sample_config ?req quiet) = Inr True"
    by (simp add: signed_sample_passes)
  have at_call: "snd (verifyGithubSignature failing_runtime sample_config ?req (arrival ?req quiet))
      = arrival ?req quiet"
    by (simp add: signed_sample_passes)
  have thrown: "throwing_process sample_push (Some ''push'') (arrival ?req quiet) =
      (Inl (Thrown ''out of memory''), arrival ?req quiet)"
    by (simp add: throwing_process_def)
  have hdr: "headers ?req ''x-github-event'' = Some ''push''"
    "headers ?req ''x-github-delivery'' = Some ''72d3162e''" "body ?req = sample_push"
    by (simp_all add: signed_request_def)
  have failed: "fst (dispatch failing_runtime sample_config sample_push (Some ''push'')
      (processing failing_runtime sample_push (Some ''push'') (arrival ?req quiet))) = Inl ?failure"
    by (rule sample_push_fails)
  have next_up: "authenticateWebhook sample_config ?mreq = Next"
    by (simp add: authenticateWebhook_def token_request_def sample_config_def truthy_def)
  have stopped: "scenario sample_make_runtime (params ?mreq ''scenarioId'') (body ?mreq)
      (make_arrival sample_make_runtime ?mreq quiet) =
      (Some (Thrown ''memory store unreachable''), make_arrival sample_make_runtime ?mreq quiet)"
    by (simp add: scenario_def token_request_def sample_make_runtime_def)
  have now: "toISOString_now failing_runtime = ''2024-05-01T12:00:00.000Z''"
    by (simp add: failing_runtime_def sample_runtime_def)
  have first: "fst (github_route throwing_process failing_runtime sample_config ?req quiet) =
      Inr \<lparr>status_code = 200,
           json = [(''status'', ''error''),
                   (''message'', ''Webhook received but processing failed''),
                   (''error'', ''out of memory'')]\<rparr>"
    using webhook_errors_answered_200 [of failing_runtime sample_config ?req quiet
        throwing_process "Thrown ''out of memory''" "arrival ?req quiet" unanswered ?mreq
        sample_make_runtime]
      pass thrown by (simp add: at_call hdr)
  have second: "fst (github_webhook failing_runtime sample_config ?req quiet) =
      Inr \<lparr>status_code = 200,
           json = [(''status'', ''error''),
                   (''message'',
                    ''Error processing GitHub event: Request failed with status code 401''),
                   (''eventType'', ''push''), (''deliveryId'', ''72d3162e''),
                   (''timestamp'', ''2024-05-01T12:00:00.000Z'')]\<rparr>"
    and code: "map_option status_code (fst (post_api_github_webhook unanswered failing_runtime
      sample_config ?req quiet)) = Some 200"
    using webhook_errors_answered_200 [of failing_runtime sample_config ?req quiet
        throwing_process ?failure
        "snd (dispatch failing_runtime sample_config sample_push (Some ''push'')
               (processing failing_runtime sample_push (Some ''push'') (arrival ?req quiet)))"
        unanswered ?mreq sample_make_runtime]
      pass failed
    by (simp_all add: at_call hdr prod_eq_iff field_def now)
  have third: "fst (make_webhook sample_make_runtime sample_config ?mreq quiet) =
      \<lparr>status_code = 200,
        json = [(''status'', ''error''),
                (''message'', ''Webhook received but processing failed'')]\<rparr>"
    using webhook_errors_answered_200 [of failing_runtime sample_config ?req quiet
        throwing_process "Thrown ''memory store unreachable''"
        "make_arrival sample_make_runtime ?mreq quiet" unanswered ?mreq sample_make_runtime]
      next_up stopped by simp
  show ?thesis
    using pass thrown first failed second code next_up stopped third by simp
qed
end
